theory Spec2Isabelle
  imports Complex_Main "HOL-Library.Char_ord" "HOL-Library.List_Lexorder"
begin

section \<open>Values of the runtime\<close>

text \<open>
  A JavaScript \<open>number\<close> is modelled by a rational: the finite numbers, computed exactly.
  \<open>NaN\<close> and the infinities are outside the model. A time value is the number of
  milliseconds since the epoch, in UTC; a \<open>Date\<close> object holds a time value within
  8,640,000,000,000,000 ms of the epoch, or is an Invalid Date, the value \<open>None\<close>. Local time
  is UTC plus an offset \<open>tza\<close> that is taken constant (no daylight saving changes).
\<close>

type_synonym number = rat
type_synonym jsdate = int
type_synonym Date = "jsdate option"

definition validTime :: "int \<Rightarrow> bool" where
  "validTime t = (- 8640000000000000 \<le> t \<and> t \<le> 8640000000000000)"

definition TimeClip :: "int \<Rightarrow> Date" where
  "TimeClip t = (if validTime t then Some t else None)"

definition LocalTime :: "int \<Rightarrow> jsdate \<Rightarrow> int" where
  "LocalTime tza t = t + tza"

definition UTC :: "int \<Rightarrow> int \<Rightarrow> int" where
  "UTC tza t = t - tza"

definition msPerDay :: int where
  "msPerDay = 86400000"

definition Day :: "jsdate \<Rightarrow> int" where
  "Day t = t div msPerDay"

definition TimeWithinDay :: "jsdate \<Rightarrow> int" where
  "TimeWithinDay t = t mod msPerDay"

definition MakeTime :: "int \<Rightarrow> int \<Rightarrow> int \<Rightarrow> int \<Rightarrow> int" where
  "MakeTime h m s ms = h * 3600000 + m * 60000 + s * 1000 + ms"

definition MakeDate :: "int \<Rightarrow> int \<Rightarrow> jsdate" where
  "MakeDate d time = d * msPerDay + time"

text \<open>
  \<open>getDay\<close>, of a valid date: day 0 of the epoch was a Thursday; Sunday is 0 and Monday
  is 1.
\<close>

definition WeekDay :: "int \<Rightarrow> int" where
  "WeekDay t = (Day t + 4) mod 7"

definition getDay :: "int \<Rightarrow> jsdate \<Rightarrow> int" where
  "getDay tza t = WeekDay (LocalTime tza t)"

text \<open>
  The civil calendar: the day of the month of a day number, and the day number of a
  year, month (0 = January) and day of the month, in the proleptic Gregorian calendar.
\<close>

definition dayOfYearMarch :: "int \<Rightarrow> int" where
  "dayOfYearMarch z =
     (let doe = (z + 719468) mod 146097;
          yoe = (doe - doe div 1460 + doe div 36524 - doe div 146096) div 365
      in doe - (365 * yoe + yoe div 4 - yoe div 100))"

definition DateFromDay :: "int \<Rightarrow> int" where
  "DateFromDay z =
     (let doy = dayOfYearMarch z; mp = (5 * doy + 2) div 153
      in doy - (153 * mp + 2) div 5 + 1)"

definition MakeDay :: "int \<Rightarrow> int \<Rightarrow> int \<Rightarrow> int" where
  "MakeDay year month dt =
     (let ym = year + month div 12; mn = month mod 12;
          y = (if mn \<le> 1 then ym - 1 else ym);
          yoe = y mod 400;
          mp = (mn + 10) mod 12;
          doy = (153 * mp + 2) div 5;
          doe = yoe * 365 + yoe div 4 - yoe div 100 + doy
      in (y div 400) * 146097 + doe - 719468 + dt - 1)"

definition getDate :: "int \<Rightarrow> jsdate \<Rightarrow> int" where
  "getDate tza t = DateFromDay (Day (LocalTime tza t))"

text \<open>
  \<open>setDate(d)\<close>, on a valid date, keeps the local year, month and time within the day, and
  moves to day \<open>d\<close> of that month, carrying into the neighbouring months when \<open>d\<close> is out
  of range: the first day of the month is the local day number minus (day of the month - 1).
  \<open>setHours(h, m, s, ms)\<close> keeps the local day. Both clip: a result outside the range of
  time values makes the date an Invalid Date. On an Invalid Date the getters give \<open>NaN\<close>
  and the setters leave it invalid, which the definitions that call them write as
  \<open>Option.bind\<close>.
\<close>

definition setDate :: "int \<Rightarrow> jsdate \<Rightarrow> int \<Rightarrow> Date" where
  "setDate tza t d =
     (let lt = LocalTime tza t
      in TimeClip (UTC tza (MakeDate (Day lt - (DateFromDay (Day lt) - 1) + (d - 1))
                              (TimeWithinDay lt))))"

definition setHours :: "int \<Rightarrow> jsdate \<Rightarrow> int \<Rightarrow> int \<Rightarrow> int \<Rightarrow> int \<Rightarrow> Date" where
  "setHours tza t h m s ms =
     TimeClip (UTC tza (MakeDate (Day (LocalTime tza t)) (MakeTime h m s ms)))"

text \<open>\<open>Math.round\<close> rounds to the nearest integer, a half towards plus infinity.\<close>

definition Math_round :: "number \<Rightarrow> number" where
  "Math_round x = of_int \<lfloor>x + 1 / 2\<rfloor>"

section \<open>The request context and the result envelope\<close>

text \<open>
  \<open>auth()\<close> gives the session; the handlers only read \<open>session?.user?.id\<close>, so the
  session is modelled by that id when there is one. An empty id is falsy, as an absent one.
\<close>

type_synonym session = "string option"

definition caller :: "session \<Rightarrow> string option" where
  "caller s = (case s of None \<Rightarrow> None | Some uid \<Rightarrow> if uid = [] then None else Some uid)"

text \<open>
  \<open>{ success: true, data?, message? }\<close> or \<open>{ success: false, error }\<close>.
\<close>

datatype 'a response = Success "'a option" "string option" | Failure string

text \<open>
  What a handler takes from its surroundings: the clock (the time value of \<open>new Date()\<close>),
  the offset of local time, the parser of date strings (\<open>None\<close> for a string that is no
  date), the identifier the store gives to a row it creates, \<open>Date.toISOString\<close>, and the
  message of the error the store client throws.
\<close>

record env =
  now :: jsdate
  localTZA :: int
  parseDate :: "string \<Rightarrow> int option"
  newId :: string
  toISOString :: "jsdate \<Rightarrow> string"
  errorMessage :: string

text \<open>\<open>new Date(string)\<close>: the parsed time value, clipped.\<close>

definition DateOfString :: "env \<Rightarrow> string \<Rightarrow> Date" where
  "DateOfString e str = Option.bind (parseDate e str) TimeClip"

section \<open>The relational store\<close>

datatype TimesheetStatus = DRAFT | SUBMITTED | APPROVED

datatype AppraisalStatus = AppraisalStatus_DRAFT | IN_PROGRESS | COMPLETED

record preferences =
  theme :: string
  language :: string
  timezone :: string

record notificationSettings =
  emailNotifications :: bool
  projectUpdates :: bool
  teamActivity :: bool
  loginAlerts :: bool

record user =
  u_id :: string
  u_name :: "string option"
  u_email :: string
  u_preferences :: "preferences option"
  u_notificationSettings :: "notificationSettings option"

record project =
  p_id :: string
  p_name :: string
  p_status :: string

record goal =
  g_id :: string
  g_userId :: string
  g_title :: string
  g_description :: "string option"
  g_targetDate :: "jsdate option"
  g_progress :: number
  g_status :: string
  g_updatedAt :: jsdate

record timesheet =
  ts_id :: string
  ts_userId :: string
  ts_weekStart :: jsdate
  ts_weekEnd :: jsdate
  ts_totalHours :: number
  ts_status :: TimesheetStatus
  ts_approverId :: "string option"
  ts_updatedAt :: jsdate

record timesheetEntry =
  te_id :: string
  te_timesheetId :: string
  te_date :: jsdate
  te_projectId :: string
  te_hours :: number
  te_description :: "string option"
  te_billable :: bool

record task =
  t_id :: string
  t_title :: string
  t_description :: "string option"
  t_status :: string
  t_priority :: string
  t_dueDate :: "jsdate option"
  t_projectId :: "string option"
  t_assigneeId :: "string option"
  t_reporterId :: "string option"
  t_estimatedHours :: "number option"
  t_actualHours :: "number option"
  t_createdAt :: jsdate
  t_updatedAt :: jsdate

record appraisalCycle =
  ac_id :: string
  ac_name :: string
  ac_startDate :: jsdate
  ac_endDate :: jsdate
  ac_status :: AppraisalStatus

record appraisalReview =
  ar_id :: string
  ar_cycleId :: string
  ar_userId :: string
  ar_selfReview :: "string option"
  ar_rating :: "number option"
  ar_finalRating :: "number option"
  ar_status :: AppraisalStatus
  ar_submittedAt :: "jsdate option"
  ar_createdAt :: jsdate
  ar_updatedAt :: jsdate

record pTORequest =
  pto_id :: string
  pto_userId :: string
  pto_startDate :: jsdate
  pto_endDate :: jsdate
  pto_status :: string
  pto_type :: string
  pto_reason :: "string option"

text \<open>
  The store is one list of rows per table, in the order the store returns them when no
  order is asked for. \<open>revalidated\<close> is the log of the view paths marked stale.
\<close>

record world =
  users :: "user list"
  projects :: "project list"
  goals :: "goal list"
  timesheets :: "timesheet list"
  timesheetEntries :: "timesheetEntry list"
  tasks :: "task list"
  appraisalCycles :: "appraisalCycle list"
  appraisalReviews :: "appraisalReview list"
  ptoRequests :: "pTORequest list"
  revalidated :: "string list"

definition revalidatePath :: "string \<Rightarrow> world \<Rightarrow> world" where
  "revalidatePath p w = w\<lparr>revalidated := revalidated w @ [p]\<rparr>"

text \<open>
  The store's operations. \<open>create\<close> refuses a row whose identifier is taken (the primary
  key is unique), which the client reports by throwing; \<open>update\<close> and \<open>delete\<close> act
  on the rows with the given identifier.
\<close>

definition createRow :: "('r \<Rightarrow> string) \<Rightarrow> 'r \<Rightarrow> 'r list \<Rightarrow> 'r list option" where
  "createRow key r tbl = (if key r \<in> set (map key tbl) then None else Some (tbl @ [r]))"

definition updateRows :: "('r \<Rightarrow> string) \<Rightarrow> string \<Rightarrow> ('r \<Rightarrow> 'r) \<Rightarrow> 'r list \<Rightarrow> 'r list" where
  "updateRows key k f tbl = map (\<lambda>r. if key r = k then f r else r) tbl"

definition deleteRows :: "('r \<Rightarrow> string) \<Rightarrow> string \<Rightarrow> 'r list \<Rightarrow> 'r list" where
  "deleteRows key k tbl = filter (\<lambda>r. key r \<noteq> k) tbl"

text \<open>\<open>orderBy\<close>: a stable sort on the key; descending, and ascending with nulls last.\<close>

definition orderByAsc :: "('r \<Rightarrow> 'k::linorder) \<Rightarrow> 'r list \<Rightarrow> 'r list" where
  "orderByAsc f xs = sort_key f xs"

definition orderByDesc :: "('r \<Rightarrow> int) \<Rightarrow> 'r list \<Rightarrow> 'r list" where
  "orderByDesc f xs = sort_key (\<lambda>r. - f r) xs"

definition orderByAscNullsLast :: "('r \<Rightarrow> int option) \<Rightarrow> 'r list \<Rightarrow> 'r list" where
  "orderByAscNullsLast f xs =
     sort_key (\<lambda>r. the (f r)) (filter (\<lambda>r. f r \<noteq> None) xs) @ filter (\<lambda>r. f r = None) xs"

section \<open>Goals (employee-goals.ts)\<close>

record createGoalData =
  cg_title :: string
  cg_description :: "string option"
  cg_targetDate :: "string option"
  cg_category :: "string option"
  cg_priority :: "string option"

record goalFilter =
  gf_status :: "string option"
  gf_category :: "string option"

record goalStats =
  gs_total :: nat
  gs_active :: nat
  gs_completed :: nat
  gs_inProgress :: nat
  gs_avgProgress :: number

text \<open>\<open>orderBy: [{ status: 'asc' }, { targetDate: 'asc' }]\<close>\<close>

definition orderGoals :: "goal list \<Rightarrow> goal list" where
  "orderGoals gs = orderByAsc g_status (orderByAscNullsLast g_targetDate gs)"

definition getMyGoals :: "session \<Rightarrow> world \<Rightarrow> goal list response" where
  "getMyGoals s w =
     (case caller s of
        None \<Rightarrow> Failure ''Unauthorized''
      | Some uid \<Rightarrow> Success (Some (orderGoals (filter (\<lambda>g. g_userId g = uid) (goals w)))) None)"

definition createGoal ::
  "env \<Rightarrow> session \<Rightarrow> createGoalData \<Rightarrow> world \<Rightarrow> goal response \<times> world" where
  "createGoal e s data w =
     (case caller s of
        None \<Rightarrow> (Failure ''Unauthorized'', w)
      | Some uid \<Rightarrow>
         (let targetDate = (case cg_targetDate data of
                              None \<Rightarrow> Some None
                            | Some str \<Rightarrow> if str = [] then Some None
                                          else map_option Some (DateOfString e str))
          in case targetDate of
               None \<Rightarrow> (Failure ''Failed to create goal'', w)
             | Some td \<Rightarrow>
                (let goal = \<lparr>g_id = newId e, g_userId = uid, g_title = cg_title data,
                             g_description = cg_description data, g_targetDate = td,
                             g_progress = 0, g_status = ''active'', g_updatedAt = now e\<rparr>
                 in case createRow g_id goal (goals w) of
                      None \<Rightarrow> (Failure ''Failed to create goal'', w)
                    | Some gs \<Rightarrow>
                       (Success (Some goal) None,
                        revalidatePath ''/employee''
                          (revalidatePath ''/employee/goals'' (w\<lparr>goals := gs\<rparr>))))))"

record updateGoalData =
  ug_title :: "string option"
  ug_description :: "string option"
  ug_targetDate :: "string option"
  ug_progress :: "number option"
  ug_status :: "string option"

definition findGoal :: "string \<Rightarrow> string \<Rightarrow> world \<Rightarrow> goal option" where
  "findGoal goalId uid w = find (\<lambda>g. g_id g = goalId \<and> g_userId g = uid) (goals w)"

text \<open>
  \<open>updateData = { ...data }\<close>, with \<open>targetDate\<close> replaced by the parsed date when the
  string is not empty. A field left out is not written. An empty \<open>targetDate\<close> string and
  an Invalid Date are refused by the store client, which throws.
\<close>

definition applyUpdateGoalData :: "updateGoalData \<Rightarrow> jsdate option \<Rightarrow> goal \<Rightarrow> goal" where
  "applyUpdateGoalData data td g =
     g\<lparr>g_title := (case ug_title data of None \<Rightarrow> g_title g | Some x \<Rightarrow> x),
       g_description := (case ug_description data of None \<Rightarrow> g_description g | Some x \<Rightarrow> Some x),
       g_targetDate := (case td of None \<Rightarrow> g_targetDate g | Some d \<Rightarrow> Some d),
       g_progress := (case ug_progress data of None \<Rightarrow> g_progress g | Some x \<Rightarrow> x),
       g_status := (case ug_status data of None \<Rightarrow> g_status g | Some x \<Rightarrow> x)\<rparr>"

definition updateGoal ::
  "env \<Rightarrow> session \<Rightarrow> string \<Rightarrow> updateGoalData \<Rightarrow> world \<Rightarrow> goal response \<times> world" where
  "updateGoal e s goalId data w =
     (case caller s of
        None \<Rightarrow> (Failure ''Unauthorized'', w)
      | Some uid \<Rightarrow>
         (case findGoal goalId uid w of
            None \<Rightarrow> (Failure ''Goal not found or access denied'', w)
          | Some goal \<Rightarrow>
             (let targetDate = (case ug_targetDate data of
                                  None \<Rightarrow> Some None
                                | Some str \<Rightarrow> if str = [] then None
                                              else map_option Some (DateOfString e str))
              in case targetDate of
                   None \<Rightarrow> (Failure ''Failed to update goal'', w)
                 | Some td \<Rightarrow>
                    (let upd = applyUpdateGoalData data td;
                         w1 = w\<lparr>goals := updateRows g_id goalId upd (goals w)\<rparr>
                     in (Success (Some (upd goal)) None,
                         revalidatePath ''/employee'' (revalidatePath ''/employee/goals'' w1))))))"

definition updateGoalProgress ::
  "env \<Rightarrow> session \<Rightarrow> string \<Rightarrow> number \<Rightarrow> world \<Rightarrow> goal response \<times> world" where
  "updateGoalProgress e s goalId progress w =
     (case caller s of
        None \<Rightarrow> (Failure ''Unauthorized'', w)
      | Some uid \<Rightarrow>
         (case findGoal goalId uid w of
            None \<Rightarrow> (Failure ''Goal not found or access denied'', w)
          | Some goal \<Rightarrow>
             (let validProgress = max 0 (min 100 progress);
                  status = (if validProgress \<ge> 100 then ''completed''
                            else if validProgress > 0 \<and> g_status goal = ''active''
                                 then ''in-progress''
                            else g_status goal);
                  upd = (\<lambda>g. g\<lparr>g_progress := validProgress, g_status := status,
                                g_updatedAt := now e\<rparr>);
                  w1 = w\<lparr>goals := updateRows g_id goalId upd (goals w)\<rparr>
              in (Success (Some (upd goal)) None, revalidatePath ''/employee/goals'' w1))))"

definition deleteGoal :: "session \<Rightarrow> string \<Rightarrow> world \<Rightarrow> unit response \<times> world" where
  "deleteGoal s goalId w =
     (case caller s of
        None \<Rightarrow> (Failure ''Unauthorized'', w)
      | Some uid \<Rightarrow>
         (case findGoal goalId uid w of
            None \<Rightarrow> (Failure ''Goal not found or access denied'', w)
          | Some goal \<Rightarrow>
             (Success None None,
              revalidatePath ''/employee''
                (revalidatePath ''/employee/goals''
                   (w\<lparr>goals := deleteRows g_id goalId (goals w)\<rparr>)))))"

definition getGoalStats :: "session \<Rightarrow> world \<Rightarrow> goalStats response" where
  "getGoalStats s w =
     (case caller s of
        None \<Rightarrow> Failure ''Unauthorized''
      | Some uid \<Rightarrow>
         (let mine = filter (\<lambda>g. g_userId g = uid) (goals w);
              avgProgress = (if length mine > 0
                             then sum_list (map g_progress mine) / of_nat (length mine)
                             else 0)
          in Success (Some \<lparr>gs_total = length mine,
                            gs_active = length (filter (\<lambda>g. g_status g = ''active'') mine),
                            gs_completed = length (filter (\<lambda>g. g_status g = ''completed'') mine),
                            gs_inProgress = length (filter (\<lambda>g. g_status g = ''in-progress'') mine),
                            gs_avgProgress = Math_round avgProgress\<rparr>) None))"

definition getFilteredGoals :: "session \<Rightarrow> goalFilter \<Rightarrow> world \<Rightarrow> goal list response" where
  "getFilteredGoals s flt w =
     (case caller s of
        None \<Rightarrow> Failure ''Unauthorized''
      | Some uid \<Rightarrow>
         (let byStatus = (case gf_status flt of
                            None \<Rightarrow> (\<lambda>g. True)
                          | Some st \<Rightarrow> if st = [] then (\<lambda>g. True) else (\<lambda>g. g_status g = st))
          in Success (Some (orderGoals
                (filter (\<lambda>g. g_userId g = uid \<and> byStatus g) (goals w)))) None))"


section \<open>Timesheets (employee-timesheet.ts)\<close>

text \<open>
  The week of a valid date, as \<open>getCurrentTimesheet\<close> and \<open>addTimesheetEntry\<close> compute it:
  \<open>weekStart.setDate(d.getDate() - (dayOfWeek === 0 ? 6 : dayOfWeek - 1))\<close>,
  \<open>weekStart.setHours(0, 0, 0, 0)\<close>, then \<open>weekEnd.setDate(weekStart.getDate() + 6)\<close>,
  \<open>weekEnd.setHours(23, 59, 59, 999)\<close>. The store client throws when it is given an
  Invalid Date.
\<close>

definition weekStartOf :: "int \<Rightarrow> jsdate \<Rightarrow> Date" where
  "weekStartOf tza d =
     (let dayOfWeek = getDay tza d;
          weekStart = setDate tza d (getDate tza d - (if dayOfWeek = 0 then 6 else dayOfWeek - 1))
      in Option.bind weekStart (\<lambda>t. setHours tza t 0 0 0 0))"

definition weekEndOf :: "int \<Rightarrow> Date \<Rightarrow> Date" where
  "weekEndOf tza weekStart =
     Option.bind weekStart (\<lambda>ws.
       Option.bind (setDate tza ws (getDate tza ws + 6)) (\<lambda>t. setHours tza t 23 59 59 999))"

record addEntryData =
  ae_date :: string
  ae_projectId :: string
  ae_hours :: number
  ae_description :: "string option"
  ae_billable :: "bool option"

record updateEntryData =
  ue_hours :: "number option"
  ue_description :: "string option"
  ue_billable :: "bool option"

record timesheetStats =
  tst_totalHours :: number
  tst_billableHours :: number
  tst_nonBillableHours :: number

type_synonym entryWithProject = "timesheetEntry \<times> (string \<times> string) option"

definition withProject :: "world \<Rightarrow> timesheetEntry \<Rightarrow> entryWithProject" where
  "withProject w en =
     (en, map_option (\<lambda>p. (p_id p, p_name p)) (find (\<lambda>p. p_id p = te_projectId en) (projects w)))"

definition entriesOf :: "world \<Rightarrow> string \<Rightarrow> timesheetEntry list" where
  "entriesOf w tid = filter (\<lambda>en. te_timesheetId en = tid) (timesheetEntries w)"

text \<open>\<open>aggregate({ _sum: { hours: true } })\<close> is null over no row; \<open>x || 0\<close>.\<close>

definition sumHours :: "timesheetEntry list \<Rightarrow> number option" where
  "sumHours rows = (if rows = [] then None else Some (sum_list (map te_hours rows)))"

definition orZero :: "number option \<Rightarrow> number" where
  "orZero x = (case x of None \<Rightarrow> 0 | Some v \<Rightarrow> if v = 0 then 0 else v)"

definition newTimesheet :: "env \<Rightarrow> string \<Rightarrow> jsdate \<Rightarrow> jsdate \<Rightarrow> timesheet" where
  "newTimesheet e uid weekStart weekEnd =
     \<lparr>ts_id = newId e, ts_userId = uid, ts_weekStart = weekStart, ts_weekEnd = weekEnd,
      ts_totalHours = 0, ts_status = DRAFT, ts_approverId = None, ts_updatedAt = now e\<rparr>"

definition findTimesheetOfWeek :: "string \<Rightarrow> jsdate \<Rightarrow> world \<Rightarrow> timesheet option" where
  "findTimesheetOfWeek uid weekStart w =
     find (\<lambda>t. ts_userId t = uid \<and> ts_weekStart t = weekStart) (timesheets w)"

definition getCurrentTimesheet ::
  "env \<Rightarrow> session \<Rightarrow> world \<Rightarrow> (timesheet \<times> entryWithProject list) response \<times> world" where
  "getCurrentTimesheet e s w =
     (case caller s of
        None \<Rightarrow> (Failure ''Unauthorized'', w)
      | Some uid \<Rightarrow>
         (let weekStart = weekStartOf (localTZA e) (now e);
              weekEnd = weekEndOf (localTZA e) weekStart
          in case weekStart of
               None \<Rightarrow> (Failure ''Failed to fetch timesheet'', w)
             | Some ws \<Rightarrow>
                (case findTimesheetOfWeek uid ws w of
                   Some t \<Rightarrow>
                     (Success (Some (t, map (withProject w)
                                          (orderByAsc te_date (entriesOf w (ts_id t))))) None, w)
                 | None \<Rightarrow>
                    (case weekEnd of
                       None \<Rightarrow> (Failure ''Failed to fetch timesheet'', w)
                     | Some we \<Rightarrow>
                        (let t = newTimesheet e uid ws we
                         in case createRow ts_id t (timesheets w) of
                              None \<Rightarrow> (Failure ''Failed to fetch timesheet'', w)
                            | Some tss \<Rightarrow>
                               (Success (Some (t, map (withProject w) (entriesOf w (ts_id t))))
                                  None,
                                w\<lparr>timesheets := tss\<rparr>))))))"

text \<open>
  The total of a timesheet is recomputed from its entries after each mutation:
  \<open>aggregate\<close> over \<open>timesheetId\<close>, then \<open>timesheet.update\<close>.
\<close>

definition updateTotalHours :: "string \<Rightarrow> world \<Rightarrow> world" where
  "updateTotalHours tid w =
     (let totalHours = sumHours (entriesOf w tid)
      in w\<lparr>timesheets :=
            updateRows ts_id tid (\<lambda>t. t\<lparr>ts_totalHours := orZero totalHours\<rparr>) (timesheets w)\<rparr>)"

text \<open>
  \<open>findFirst\<close> the timesheet of the user for the week, and \<open>create\<close> it when there is
  none; \<open>None\<close> when the creation throws (the week end is an Invalid Date, or the
  identifier is taken).
\<close>

definition getOrCreateTimesheet ::
  "env \<Rightarrow> string \<Rightarrow> jsdate \<Rightarrow> Date \<Rightarrow> world \<Rightarrow> (timesheet \<times> world) option" where
  "getOrCreateTimesheet e uid weekStart weekEnd w =
     (case findTimesheetOfWeek uid weekStart w of
        Some t \<Rightarrow> Some (t, w)
      | None \<Rightarrow>
         (case weekEnd of
            None \<Rightarrow> None
          | Some we \<Rightarrow>
             (let t = newTimesheet e uid weekStart we
              in map_option (\<lambda>tss. (t, w\<lparr>timesheets := tss\<rparr>))
                   (createRow ts_id t (timesheets w)))))"

definition addTimesheetEntry ::
  "env \<Rightarrow> session \<Rightarrow> addEntryData \<Rightarrow> world \<Rightarrow> timesheetEntry response \<times> world" where
  "addTimesheetEntry e s data w =
     (case caller s of
        None \<Rightarrow> (Failure ''Unauthorized'', w)
      | Some uid \<Rightarrow>
         if ae_date data = [] then (Failure ''Date is required'', w)
         else if ae_projectId data = [] then (Failure ''Project is required'', w)
         else if ae_hours data = 0 \<or> ae_hours data \<le> 0 \<or> ae_hours data > 24
           then (Failure ''Hours must be between 0 and 24'', w)
         else
          (case DateOfString e (ae_date data) of
             None \<Rightarrow> (Failure (errorMessage e), w)
           | Some entryDate \<Rightarrow>
              (let weekStart = weekStartOf (localTZA e) entryDate;
                   weekEnd = weekEndOf (localTZA e) weekStart
               in case weekStart of
                    None \<Rightarrow> (Failure (errorMessage e), w)
                  | Some ws \<Rightarrow>
                     (case getOrCreateTimesheet e uid ws weekEnd w of
                        None \<Rightarrow> (Failure (errorMessage e), w)
                      | Some (timesheet, w1) \<Rightarrow>
                         if ts_status timesheet = APPROVED
                         then (Failure ''Cannot edit approved timesheet'', w1)
                         else
                          (let entry = \<lparr>te_id = newId e, te_timesheetId = ts_id timesheet,
                                        te_date = entryDate, te_projectId = ae_projectId data,
                                        te_hours = ae_hours data,
                                        te_description = ae_description data,
                                        te_billable = (case ae_billable data of
                                                         None \<Rightarrow> False | Some b \<Rightarrow> b)\<rparr>
                           in case createRow te_id entry (timesheetEntries w1) of
                                None \<Rightarrow> (Failure (errorMessage e), w1)
                              | Some ens \<Rightarrow>
                                 (Success (Some entry) None,
                                  revalidatePath ''/employee''
                                    (revalidatePath ''/employee/timesheet''
                                       (updateTotalHours (ts_id timesheet)
                                          (w1\<lparr>timesheetEntries := ens\<rparr>)))))))))"

text \<open>
  \<open>timesheetEntry.findFirst({ where: { id, timesheet: { userId } }, include: { timesheet } })\<close>:
  the first entry with the id whose timesheet belongs to the user, with that timesheet.
\<close>

definition timesheetOf :: "world \<Rightarrow> timesheetEntry \<Rightarrow> timesheet option" where
  "timesheetOf w en = find (\<lambda>t. ts_id t = te_timesheetId en) (timesheets w)"

definition findEntry :: "string \<Rightarrow> string \<Rightarrow> world \<Rightarrow> (timesheetEntry \<times> timesheet) option" where
  "findEntry entryId uid w =
     (case find (\<lambda>en. te_id en = entryId \<and>
                      (case timesheetOf w en of None \<Rightarrow> False | Some t \<Rightarrow> ts_userId t = uid))
             (timesheetEntries w) of
        None \<Rightarrow> None
      | Some en \<Rightarrow> map_option (\<lambda>t. (en, t)) (timesheetOf w en))"

definition applyUpdateEntryData :: "updateEntryData \<Rightarrow> timesheetEntry \<Rightarrow> timesheetEntry" where
  "applyUpdateEntryData data en =
     en\<lparr>te_hours := (case ue_hours data of None \<Rightarrow> te_hours en | Some h \<Rightarrow> h),
        te_description := (case ue_description data of
                             None \<Rightarrow> te_description en | Some d \<Rightarrow> Some d),
        te_billable := (case ue_billable data of None \<Rightarrow> te_billable en | Some b \<Rightarrow> b)\<rparr>"

definition updateTimesheetEntry ::
  "session \<Rightarrow> string \<Rightarrow> updateEntryData \<Rightarrow> world \<Rightarrow> timesheetEntry response \<times> world" where
  "updateTimesheetEntry s entryId data w =
     (case caller s of
        None \<Rightarrow> (Failure ''Unauthorized'', w)
      | Some uid \<Rightarrow>
         (case findEntry entryId uid w of
            None \<Rightarrow> (Failure ''Entry not found or access denied'', w)
          | Some (entry, timesheet) \<Rightarrow>
             if ts_status timesheet = APPROVED
             then (Failure ''Cannot edit approved timesheet'', w)
             else
              (let w1 = w\<lparr>timesheetEntries :=
                           updateRows te_id entryId (applyUpdateEntryData data)
                             (timesheetEntries w)\<rparr>
               in (Success (Some (applyUpdateEntryData data entry)) None,
                   revalidatePath ''/employee/timesheet''
                     (updateTotalHours (te_timesheetId entry) w1)))))"

definition deleteTimesheetEntry :: "session \<Rightarrow> string \<Rightarrow> world \<Rightarrow> unit response \<times> world" where
  "deleteTimesheetEntry s entryId w =
     (case caller s of
        None \<Rightarrow> (Failure ''Unauthorized'', w)
      | Some uid \<Rightarrow>
         (case findEntry entryId uid w of
            None \<Rightarrow> (Failure ''Entry not found or access denied'', w)
          | Some (entry, timesheet) \<Rightarrow>
             if ts_status timesheet = APPROVED
             then (Failure ''Cannot delete from approved timesheet'', w)
             else
              (let w1 = w\<lparr>timesheetEntries := deleteRows te_id entryId (timesheetEntries w)\<rparr>
               in (Success None None,
                   revalidatePath ''/employee/timesheet''
                     (updateTotalHours (te_timesheetId entry) w1)))))"

definition submitTimesheet ::
  "env \<Rightarrow> session \<Rightarrow> string \<Rightarrow> world \<Rightarrow> timesheet response \<times> world" where
  "submitTimesheet e s timesheetId w =
     (case caller s of
        None \<Rightarrow> (Failure ''Unauthorized'', w)
      | Some uid \<Rightarrow>
         (case find (\<lambda>t. ts_id t = timesheetId \<and> ts_userId t = uid) (timesheets w) of
            None \<Rightarrow> (Failure ''Timesheet not found or access denied'', w)
          | Some timesheet \<Rightarrow>
             if ts_status timesheet \<noteq> DRAFT
             then (Failure ''Timesheet is not in draft status'', w)
             else
              (let upd = (\<lambda>t. t\<lparr>ts_status := SUBMITTED, ts_updatedAt := now e\<rparr>);
                   w1 = w\<lparr>timesheets := updateRows ts_id timesheetId upd (timesheets w)\<rparr>
               in (Success (Some (upd timesheet)) None,
                   revalidatePath ''/employee/timesheet'' w1))))"

text \<open>
  \<open>getTimesheetHistory(limit = 10)\<close>; \<open>limit\<close> is a row count, \<open>None\<close> when left out.
\<close>

definition getTimesheetHistory ::
  "session \<Rightarrow> nat option \<Rightarrow> world \<Rightarrow>
   (timesheet \<times> entryWithProject list \<times> (string \<times> string option \<times> string) option) list response" where
  "getTimesheetHistory s limit w =
     (case caller s of
        None \<Rightarrow> Failure ''Unauthorized''
      | Some uid \<Rightarrow>
         (let n = (case limit of None \<Rightarrow> 10 | Some k \<Rightarrow> k);
              rows = take n (orderByDesc ts_weekStart
                               (filter (\<lambda>t. ts_userId t = uid) (timesheets w)));
              approver = (\<lambda>t. case ts_approverId t of
                                None \<Rightarrow> None
                              | Some a \<Rightarrow> map_option (\<lambda>u. (u_id u, u_name u, u_email u))
                                           (find (\<lambda>u. u_id u = a) (users w)))
          in Success (Some (map (\<lambda>t. (t, map (withProject w) (entriesOf w (ts_id t)), approver t))
                              rows)) None))"

definition getTimesheetStats :: "env \<Rightarrow> session \<Rightarrow> world \<Rightarrow> timesheetStats response" where
  "getTimesheetStats e s w =
     (case caller s of
        None \<Rightarrow> Failure ''Unauthorized''
      | Some uid \<Rightarrow>
         (case Option.bind (setDate (localTZA e) (now e) 1)
                 (\<lambda>t. setHours (localTZA e) t 0 0 0 0) of
            None \<Rightarrow> Failure ''Failed to fetch statistics''
          | Some currentMonth \<Rightarrow>
             (let mine = filter (\<lambda>en. (case timesheetOf w en of
                                          None \<Rightarrow> False | Some t \<Rightarrow> ts_userId t = uid)
                                      \<and> te_date en \<ge> currentMonth) (timesheetEntries w);
                  totalHours = sumHours mine;
                  billableHours = sumHours (filter te_billable mine)
              in Success (Some \<lparr>tst_totalHours = orZero totalHours,
                                tst_billableHours = orZero billableHours,
                                tst_nonBillableHours =
                                  orZero totalHours - orZero billableHours\<rparr>)
                   None)))"

definition getAvailableProjects :: "session \<Rightarrow> world \<Rightarrow> project list response" where
  "getAvailableProjects s w =
     (case caller s of
        None \<Rightarrow> Failure ''Unauthorized''
      | Some uid \<Rightarrow>
         Success (Some (orderByAsc p_name
                          (filter (\<lambda>p. p_status p \<noteq> ''COMPLETED'') (projects w)))) None)"


section \<open>Tasks (employee-tasks.ts)\<close>

record createTaskData =
  ct_title :: string
  ct_description :: "string option"
  ct_priority :: "string option"
  ct_projectId :: "string option"
  ct_dueDate :: "string option"
  ct_estimatedHours :: "number option"

record taskStats =
  tk_total :: nat
  tk_inProgress :: nat
  tk_completed :: nat
  tk_overdue :: nat

type_synonym taskWithProject = "task \<times> (string \<times> string) option"

definition taskProject :: "world \<Rightarrow> task \<Rightarrow> taskWithProject" where
  "taskProject w t =
     (t, case t_projectId t of
           None \<Rightarrow> None
         | Some pid \<Rightarrow> map_option (\<lambda>p. (p_id p, p_name p)) (find (\<lambda>p. p_id p = pid) (projects w)))"

text \<open>\<open>orderBy: [{ dueDate: 'asc' }, { createdAt: 'desc' }]\<close>\<close>

definition orderTasks :: "task list \<Rightarrow> task list" where
  "orderTasks ts = orderByAscNullsLast t_dueDate (orderByDesc t_createdAt ts)"

definition createTask ::
  "env \<Rightarrow> session \<Rightarrow> createTaskData \<Rightarrow> world \<Rightarrow> taskWithProject response \<times> world" where
  "createTask e s data w =
     (case caller s of
        None \<Rightarrow> (Failure ''Unauthorized'', w)
      | Some uid \<Rightarrow>
         (let dueDate = (case ct_dueDate data of
                           None \<Rightarrow> Some None
                         | Some str \<Rightarrow> if str = [] then Some None
                                       else map_option Some (DateOfString e str))
          in case dueDate of
               None \<Rightarrow> (Failure ''Failed to create task'', w)
             | Some dd \<Rightarrow>
                (let task = \<lparr>t_id = newId e, t_title = ct_title data,
                             t_description = ct_description data, t_status = ''TODO'',
                             t_priority = (case ct_priority data of
                                             None \<Rightarrow> ''MEDIUM''
                                           | Some p \<Rightarrow> if p = [] then ''MEDIUM'' else p),
                             t_dueDate = dd,
                             t_projectId = (case ct_projectId data of
                                              None \<Rightarrow> None
                                            | Some p \<Rightarrow> if p = [] then None else Some p),
                             t_assigneeId = Some uid, t_reporterId = Some uid,
                             t_estimatedHours = (case ct_estimatedHours data of
                                                   None \<Rightarrow> None
                                                 | Some h \<Rightarrow> if h = 0 then None else Some h),
                             t_actualHours = None,
                             t_createdAt = now e, t_updatedAt = now e\<rparr>
                 in case createRow t_id task (tasks w) of
                      None \<Rightarrow> (Failure ''Failed to create task'', w)
                    | Some ts \<Rightarrow>
                       (Success (Some (taskProject w task)) None,
                        revalidatePath ''/employee''
                          (revalidatePath ''/employee/my-work'' (w\<lparr>tasks := ts\<rparr>))))))"

definition getMyTasks :: "session \<Rightarrow> world \<Rightarrow> taskWithProject list response" where
  "getMyTasks s w =
     (case caller s of
        None \<Rightarrow> Failure ''Unauthorized''
      | Some uid \<Rightarrow>
         Success (Some (map (taskProject w)
                          (orderTasks (filter (\<lambda>t. t_assigneeId t = Some uid) (tasks w))))) None)"

definition getMyTaskStats :: "env \<Rightarrow> session \<Rightarrow> world \<Rightarrow> taskStats response" where
  "getMyTaskStats e s w =
     (case caller s of
        None \<Rightarrow> Failure ''Unauthorized''
      | Some uid \<Rightarrow>
         (let mine = filter (\<lambda>t. t_assigneeId t = Some uid) (tasks w)
          in Success (Some \<lparr>tk_total = length mine,
                            tk_inProgress = length (filter (\<lambda>t. t_status t = ''IN_PROGRESS'') mine),
                            tk_completed = length (filter (\<lambda>t. t_status t = ''DONE'') mine),
                            tk_overdue = length (filter (\<lambda>t. t_status t \<noteq> ''DONE'' \<and>
                                (case t_dueDate t of None \<Rightarrow> False | Some d \<Rightarrow> d < now e)) mine)\<rparr>)
               None))"

definition findTask :: "string \<Rightarrow> string \<Rightarrow> world \<Rightarrow> task option" where
  "findTask taskId uid w = find (\<lambda>t. t_id t = taskId \<and> t_assigneeId t = Some uid) (tasks w)"

definition updateTaskStatus ::
  "env \<Rightarrow> session \<Rightarrow> string \<Rightarrow> string \<Rightarrow> world \<Rightarrow> task response \<times> world" where
  "updateTaskStatus e s taskId status w =
     (case caller s of
        None \<Rightarrow> (Failure ''Unauthorized'', w)
      | Some uid \<Rightarrow>
         (case findTask taskId uid w of
            None \<Rightarrow> (Failure ''Task not found or access denied'', w)
          | Some task \<Rightarrow>
             (let upd = (\<lambda>t. t\<lparr>t_status := status, t_updatedAt := now e\<rparr>);
                  w1 = w\<lparr>tasks := updateRows t_id taskId upd (tasks w)\<rparr>
              in (Success (Some (upd task)) None,
                  revalidatePath ''/employee'' (revalidatePath ''/employee/my-work'' w1)))))"

definition logTaskHours ::
  "env \<Rightarrow> session \<Rightarrow> string \<Rightarrow> number \<Rightarrow> world \<Rightarrow> task response \<times> world" where
  "logTaskHours e s taskId hours w =
     (case caller s of
        None \<Rightarrow> (Failure ''Unauthorized'', w)
      | Some uid \<Rightarrow>
         (case findTask taskId uid w of
            None \<Rightarrow> (Failure ''Task not found or access denied'', w)
          | Some task \<Rightarrow>
             (let currentHours = orZero (t_actualHours task);
                  upd = (\<lambda>t. t\<lparr>t_actualHours := Some (currentHours + hours),
                                t_updatedAt := now e\<rparr>);
                  w1 = w\<lparr>tasks := updateRows t_id taskId upd (tasks w)\<rparr>
              in (Success (Some (upd task)) None, revalidatePath ''/employee/my-work'' w1))))"

definition dueWithin :: "jsdate \<Rightarrow> jsdate \<Rightarrow> task \<Rightarrow> bool" where
  "dueWithin lo hi t = (case t_dueDate t of None \<Rightarrow> False | Some d \<Rightarrow> lo \<le> d \<and> d \<le> hi)"

text \<open>
  The \<open>where\<close> clause is \<open>None\<close> when it holds an Invalid Date, which makes the store
  client throw.
\<close>

definition getFilteredTasks ::
  "env \<Rightarrow> session \<Rightarrow> string \<Rightarrow> world \<Rightarrow> taskWithProject list response" where
  "getFilteredTasks e s flt w =
     (case caller s of
        None \<Rightarrow> Failure ''Unauthorized''
      | Some uid \<Rightarrow>
         (let today = now e;
              weekFromNow = setDate (localTZA e) (now e) (getDate (localTZA e) today + 7);
              whereClause =
                (if flt = ''today'' then
                   (let lo = setHours (localTZA e) today 0 0 0 0;
                        hi = Option.bind lo (\<lambda>t. setHours (localTZA e) t 23 59 59 999)
                    in case (lo, hi) of
                         (Some l, Some h) \<Rightarrow> Some (dueWithin l h)
                       | _ \<Rightarrow> None)
                 else if flt = ''week'' then map_option (dueWithin today) weekFromNow
                 else if flt = ''overdue'' then
                   Some (\<lambda>t. (case t_dueDate t of None \<Rightarrow> False | Some d \<Rightarrow> d < now e)
                             \<and> t_status t \<noteq> ''DONE'')
                 else if flt = ''blocked'' then Some (\<lambda>t. t_status t = ''BLOCKED'')
                 else Some (\<lambda>t. True))
          in case whereClause of
               None \<Rightarrow> Failure ''Failed to fetch filtered tasks''
             | Some wh \<Rightarrow>
                Success (Some (map (taskProject w)
                  (orderTasks (filter (\<lambda>t. t_assigneeId t = Some uid \<and> wh t) (tasks w)))))
                  None))"

section \<open>Appraisals (employee-appraisal.ts)\<close>

record appraisalStats =
  as_total :: nat
  as_draft :: nat
  as_inProgress :: nat
  as_completed :: nat
  as_avgRating :: number

type_synonym reviewWithCycle = "appraisalReview \<times> appraisalCycle option"

definition cycleOf :: "world \<Rightarrow> appraisalReview \<Rightarrow> appraisalCycle option" where
  "cycleOf w a = find (\<lambda>c. ac_id c = ar_cycleId a) (appraisalCycles w)"

definition findAppraisal :: "string \<Rightarrow> string \<Rightarrow> world \<Rightarrow> appraisalReview option" where
  "findAppraisal appraisalId uid w =
     find (\<lambda>a. ar_id a = appraisalId \<and> ar_userId a = uid) (appraisalReviews w)"

definition getMyAppraisals :: "session \<Rightarrow> world \<Rightarrow> reviewWithCycle list response" where
  "getMyAppraisals s w =
     (case caller s of
        None \<Rightarrow> Failure ''Unauthorized''
      | Some uid \<Rightarrow>
         Success (Some (map (\<lambda>a. (a, cycleOf w a))
                          (orderByDesc ar_createdAt
                             (filter (\<lambda>a. ar_userId a = uid) (appraisalReviews w))))) None)"

definition getCurrentAppraisal ::
  "env \<Rightarrow> session \<Rightarrow> world \<Rightarrow> reviewWithCycle option response \<times> world" where
  "getCurrentAppraisal e s w =
     (case caller s of
        None \<Rightarrow> (Failure ''Unauthorized'', w)
      | Some uid \<Rightarrow>
         (case find (\<lambda>c. (ac_status c = AppraisalStatus_DRAFT \<or> ac_status c = IN_PROGRESS)
                         \<and> ac_startDate c \<le> now e \<and> ac_endDate c \<ge> now e)
                 (appraisalCycles w) of
            None \<Rightarrow> (Success (Some None) None, w)
          | Some activeCycle \<Rightarrow>
             (case find (\<lambda>a. ar_cycleId a = ac_id activeCycle \<and> ar_userId a = uid)
                     (appraisalReviews w) of
                Some a \<Rightarrow> (Success (Some (Some (a, cycleOf w a))) None, w)
              | None \<Rightarrow>
                 (let a = \<lparr>ar_id = newId e, ar_cycleId = ac_id activeCycle, ar_userId = uid,
                           ar_selfReview = None, ar_rating = None, ar_finalRating = None,
                           ar_status = AppraisalStatus_DRAFT, ar_submittedAt = None,
                           ar_createdAt = now e, ar_updatedAt = now e\<rparr>
                  in case createRow ar_id a (appraisalReviews w) of
                       None \<Rightarrow> (Failure ''Failed to fetch current appraisal'', w)
                     | Some rs \<Rightarrow>
                        (Success (Some (Some (a, cycleOf w a))) None,
                         w\<lparr>appraisalReviews := rs\<rparr>)))))"

definition updateSelfReview ::
  "env \<Rightarrow> session \<Rightarrow> string \<Rightarrow> string \<Rightarrow> number option \<Rightarrow> world \<Rightarrow>
   appraisalReview response \<times> world" where
  "updateSelfReview e s appraisalId selfReview rating w =
     (case caller s of
        None \<Rightarrow> (Failure ''Unauthorized'', w)
      | Some uid \<Rightarrow>
         (case findAppraisal appraisalId uid w of
            None \<Rightarrow> (Failure ''Appraisal not found or access denied'', w)
          | Some appraisal \<Rightarrow>
             if ar_status appraisal = COMPLETED
             then (Failure ''Cannot edit completed appraisal'', w)
             else
              (let upd = (\<lambda>a. a\<lparr>ar_selfReview := Some selfReview,
                                 ar_rating := (case rating of
                                                 None \<Rightarrow> ar_rating a | Some r \<Rightarrow> Some r),
                                 ar_updatedAt := now e\<rparr>);
                   w1 = w\<lparr>appraisalReviews :=
                           updateRows ar_id appraisalId upd (appraisalReviews w)\<rparr>
               in (Success (Some (upd appraisal)) None,
                   revalidatePath ''/employee/appraisal'' w1))))"

definition submitAppraisal ::
  "env \<Rightarrow> session \<Rightarrow> string \<Rightarrow> world \<Rightarrow> appraisalReview response \<times> world" where
  "submitAppraisal e s appraisalId w =
     (case caller s of
        None \<Rightarrow> (Failure ''Unauthorized'', w)
      | Some uid \<Rightarrow>
         (case findAppraisal appraisalId uid w of
            None \<Rightarrow> (Failure ''Appraisal not found or access denied'', w)
          | Some appraisal \<Rightarrow>
             if ar_status appraisal \<noteq> AppraisalStatus_DRAFT
             then (Failure ''Appraisal is not in draft status'', w)
             else if ar_selfReview appraisal = None \<or> ar_selfReview appraisal = Some []
             then (Failure ''Self-review is required before submission'', w)
             else
              (let upd = (\<lambda>a. a\<lparr>ar_status := IN_PROGRESS, ar_submittedAt := Some (now e),
                                 ar_updatedAt := now e\<rparr>);
                   w1 = w\<lparr>appraisalReviews :=
                           updateRows ar_id appraisalId upd (appraisalReviews w)\<rparr>
               in (Success (Some (upd appraisal)) None,
                   revalidatePath ''/employee/appraisal'' w1))))"

definition getAppraisalStats :: "session \<Rightarrow> world \<Rightarrow> appraisalStats response" where
  "getAppraisalStats s w =
     (case caller s of
        None \<Rightarrow> Failure ''Unauthorized''
      | Some uid \<Rightarrow>
         (let mine = filter (\<lambda>a. ar_userId a = uid) (appraisalReviews w);
              completedAppraisals =
                filter (\<lambda>a. ar_status a = COMPLETED \<and> ar_finalRating a \<noteq> None) mine;
              avgRating = (if length completedAppraisals > 0
                           then sum_list (map (\<lambda>a. orZero (ar_finalRating a)) completedAppraisals)
                                / of_nat (length completedAppraisals)
                           else 0)
          in Success (Some \<lparr>as_total = length mine,
                            as_draft = length (filter (\<lambda>a. ar_status a = AppraisalStatus_DRAFT) mine),
                            as_inProgress = length (filter (\<lambda>a. ar_status a = IN_PROGRESS) mine),
                            as_completed = length (filter (\<lambda>a. ar_status a = COMPLETED) mine),
                            as_avgRating = Math_round (avgRating * 10) / 10\<rparr>) None))"

definition getAppraisalById :: "session \<Rightarrow> string \<Rightarrow> world \<Rightarrow> reviewWithCycle response" where
  "getAppraisalById s appraisalId w =
     (case caller s of
        None \<Rightarrow> Failure ''Unauthorized''
      | Some uid \<Rightarrow>
         (case findAppraisal appraisalId uid w of
            None \<Rightarrow> Failure ''Appraisal not found or access denied''
          | Some appraisal \<Rightarrow> Success (Some (appraisal, cycleOf w appraisal)) None))"


section \<open>Calendar (employee-calendar.ts)\<close>

datatype eventType = Task | Meeting | Deadline | Milestone | Appraisal | Pto

record CalendarEvent =
  ev_id :: string
  ev_title :: string
  ev_type :: eventType
  ev_date :: jsdate
  ev_time :: "string option"
  ev_priority :: "string option"
  ev_status :: "string option"
  ev_description :: "string option"

record calendarStats =
  cs_todayTasks :: nat
  cs_weekTasks :: nat
  cs_upcomingDeadlines :: nat

record ptoCheck =
  hasPTO :: bool
  pto :: "pTORequest option"

text \<open>\<open>x || undefined\<close> on a string that may be null.\<close>

definition orUndefined :: "string option \<Rightarrow> string option" where
  "orUndefined x = (case x of None \<Rightarrow> None | Some v \<Rightarrow> if v = [] then None else Some v)"

definition statusString :: "AppraisalStatus \<Rightarrow> string" where
  "statusString st = (case st of AppraisalStatus_DRAFT \<Rightarrow> ''DRAFT''
                      | IN_PROGRESS \<Rightarrow> ''IN_PROGRESS'' | COMPLETED \<Rightarrow> ''COMPLETED'')"

definition taskEvent :: "task \<Rightarrow> jsdate \<Rightarrow> CalendarEvent" where
  "taskEvent t due =
     \<lparr>ev_id = ''task-'' @ t_id t, ev_title = t_title t, ev_type = Task, ev_date = due,
      ev_time = None, ev_priority = orUndefined (Some (t_priority t)),
      ev_status = orUndefined (Some (t_status t)),
      ev_description = orUndefined (t_description t)\<rparr>"

definition appraisalEvent :: "appraisalReview \<Rightarrow> appraisalCycle \<Rightarrow> CalendarEvent" where
  "appraisalEvent a c =
     \<lparr>ev_id = ''appraisal-'' @ ar_id a, ev_title = ''Appraisal: '' @ ac_name c,
      ev_type = Appraisal, ev_date = ac_endDate c, ev_time = None, ev_priority = None,
      ev_status = Some (statusString (ar_status a)), ev_description = None\<rparr>"

definition ptoEvent :: "env \<Rightarrow> pTORequest \<Rightarrow> jsdate \<Rightarrow> CalendarEvent" where
  "ptoEvent e p currentDate =
     \<lparr>ev_id = ''pto-'' @ pto_id p @ ''-'' @ toISOString e currentDate,
      ev_title = ''PTO: '' @ pto_type p, ev_type = Pto, ev_date = currentDate,
      ev_time = None, ev_priority = None, ev_status = Some (pto_status p),
      ev_description = orUndefined (pto_reason p)\<rparr>"

text \<open>
  The loop over the days of a request:
  \<open>while (currentDate <= endDate) { if (currentDate >= start && currentDate <= end) push;
  currentDate.setDate(currentDate.getDate() + 1) }\<close>. The comparison with an Invalid Date
  is false, which ends the loop.
\<close>

function ptoEvents ::
  "env \<Rightarrow> jsdate \<Rightarrow> jsdate \<Rightarrow> pTORequest \<Rightarrow> Date \<Rightarrow> jsdate \<Rightarrow> CalendarEvent list" where
  "ptoEvents e start end' p currentDate endDate =
     (case currentDate of
        None \<Rightarrow> []
      | Some c \<Rightarrow>
         if c \<le> endDate
         then (if c \<ge> start \<and> c \<le> end' then [ptoEvent e p c] else [])
              @ ptoEvents e start end' p
                  (setDate (localTZA e) c (getDate (localTZA e) c + 1)) endDate
         else [])"
  by pat_completeness auto
termination
  by (relation "measure (\<lambda>(e, start, end', p, currentDate, endDate).
          case currentDate of None \<Rightarrow> 0 | Some c \<Rightarrow> nat (endDate - c + 1) + 1)")
     (auto simp: setDate_def getDate_def TimeClip_def LocalTime_def UTC_def MakeDate_def Day_def
         TimeWithinDay_def msPerDay_def Let_def algebra_simps split: option.splits if_splits)

declare ptoEvents.simps [simp del]

definition cycleEndsWithin :: "world \<Rightarrow> jsdate \<Rightarrow> jsdate \<Rightarrow> appraisalReview \<Rightarrow> bool" where
  "cycleEndsWithin w lo hi a =
     (case cycleOf w a of None \<Rightarrow> False | Some c \<Rightarrow> lo \<le> ac_endDate c \<and> ac_endDate c \<le> hi)"

definition ptoWithin :: "jsdate \<Rightarrow> jsdate \<Rightarrow> pTORequest \<Rightarrow> bool" where
  "ptoWithin lo hi p =
     ((lo \<le> pto_startDate p \<and> pto_startDate p \<le> hi) \<or> (lo \<le> pto_endDate p \<and> pto_endDate p \<le> hi))"

text \<open>
  The three queries of \<open>getMyCalendarEvents\<close> for a window of valid dates, the events made
  from their rows, and the sort by date.
\<close>

definition calendarEvents ::
  "env \<Rightarrow> string \<Rightarrow> jsdate \<Rightarrow> jsdate \<Rightarrow> world \<Rightarrow> CalendarEvent list response" where
  "calendarEvents e uid start end' w =
     (let tasks' = filter (\<lambda>t. t_assigneeId t = Some uid \<and> dueWithin start end' t) (tasks w);
          appraisals = filter (\<lambda>a. ar_userId a = uid \<and> cycleEndsWithin w start end' a)
                         (appraisalReviews w);
          ptoRequests' = filter (\<lambda>p. pto_userId p = uid \<and> pto_status p = ''APPROVED''
                                     \<and> ptoWithin start end' p) (ptoRequests w);
          events =
            concat (map (\<lambda>t. case t_dueDate t of None \<Rightarrow> [] | Some d \<Rightarrow> [taskEvent t d]) tasks')
            @ concat (map (\<lambda>a. case cycleOf w a of None \<Rightarrow> []
                                | Some c \<Rightarrow> [appraisalEvent a c]) appraisals)
            @ concat (map (\<lambda>p. ptoEvents e start end' p (Some (pto_startDate p)) (pto_endDate p))
                        ptoRequests')
      in Success (Some (sort_key ev_date events)) None)"

text \<open>
  \<open>getMyCalendarEvents(startDate?: Date, endDate?: Date)\<close>: an argument is left out
  (\<open>None\<close>) or is a Date object, which may be an Invalid Date. \<open>startDate || new Date()\<close>
  keeps any Date object. With an Invalid Date in a \<open>where\<close> clause the store client
  throws.
\<close>

definition getMyCalendarEvents ::
  "env \<Rightarrow> session \<Rightarrow> Date option \<Rightarrow> Date option \<Rightarrow> world \<Rightarrow> CalendarEvent list response" where
  "getMyCalendarEvents e s startDate endDate w =
     (case caller s of
        None \<Rightarrow> Failure ''Unauthorized''
      | Some uid \<Rightarrow>
         (let startD = (case startDate of None \<Rightarrow> Some (now e) | Some d \<Rightarrow> d);
              endD = (case endDate of
                        None \<Rightarrow> Option.bind startD
                                  (\<lambda>t. TimeClip (t + 30 * 24 * 60 * 60 * 1000))
                      | Some d \<Rightarrow> d)
          in case (startD, endD) of
               (Some start, Some end') \<Rightarrow> calendarEvents e uid start end' w
             | _ \<Rightarrow> Failure ''Failed to fetch calendar events''))"

text \<open>
  In the three handlers below the caller is read again by \<open>getMyCalendarEvents\<close>, which
  also catches what the store client throws on an Invalid Date.
\<close>

definition getEventsForDate ::
  "env \<Rightarrow> session \<Rightarrow> string \<Rightarrow> world \<Rightarrow> CalendarEvent list response" where
  "getEventsForDate e s date w =
     (case caller s of
        None \<Rightarrow> Failure ''Unauthorized''
      | Some uid \<Rightarrow>
         (let targetDate = DateOfString e date;
              startOfDay = Option.bind targetDate (\<lambda>t. setHours (localTZA e) t 0 0 0 0);
              endOfDay = Option.bind targetDate (\<lambda>t. setHours (localTZA e) t 23 59 59 999)
          in getMyCalendarEvents e s (Some startOfDay) (Some endOfDay) w))"

definition getUpcomingEvents :: "env \<Rightarrow> session \<Rightarrow> world \<Rightarrow> CalendarEvent list response" where
  "getUpcomingEvents e s w =
     (case caller s of
        None \<Rightarrow> Failure ''Unauthorized''
      | Some uid \<Rightarrow>
         (let today = setHours (localTZA e) (now e) 0 0 0 0;
              nextWeek =
                Option.bind today (\<lambda>t.
                  Option.bind (setDate (localTZA e) t (getDate (localTZA e) t + 7))
                    (\<lambda>n. setHours (localTZA e) n 23 59 59 999))
          in getMyCalendarEvents e s (Some today) (Some nextWeek) w))"

text \<open>
  \<open>new Date(year, month, date, h, m, s, ms)\<close>, in local time: a year from 0 to 99 is read
  as 1900 + year; the month and the day of the month carry; the result is clipped.
\<close>

definition newDate :: "int \<Rightarrow> int \<Rightarrow> int \<Rightarrow> int \<Rightarrow> int \<Rightarrow> int \<Rightarrow> int \<Rightarrow> int \<Rightarrow> Date" where
  "newDate tza year month dt h m s ms =
     TimeClip (UTC tza
       (MakeDate (MakeDay (if 0 \<le> year \<and> year \<le> 99 then 1900 + year else year) month dt)
          (MakeTime h m s ms)))"

definition getMonthEvents ::
  "env \<Rightarrow> session \<Rightarrow> int \<Rightarrow> int \<Rightarrow> world \<Rightarrow> CalendarEvent list response" where
  "getMonthEvents e s year month w =
     (case caller s of
        None \<Rightarrow> Failure ''Unauthorized''
      | Some uid \<Rightarrow>
         (let startOfMonth = newDate (localTZA e) year month 1 0 0 0 0;
              endOfMonth = newDate (localTZA e) year (month + 1) 0 23 59 59 999
          in getMyCalendarEvents e s (Some startOfMonth) (Some endOfMonth) w))"

definition getCalendarStats :: "env \<Rightarrow> session \<Rightarrow> world \<Rightarrow> calendarStats response" where
  "getCalendarStats e s w =
     (case caller s of
        None \<Rightarrow> Failure ''Unauthorized''
      | Some uid \<Rightarrow>
         (let today = setHours (localTZA e) (now e) 0 0 0 0;
              nextWeek = Option.bind today
                           (\<lambda>t. setDate (localTZA e) t (getDate (localTZA e) t + 7));
              endOfToday = Option.bind today (\<lambda>t. TimeClip (t + 24 * 60 * 60 * 1000 - 1));
              mine = filter (\<lambda>t. t_assigneeId t = Some uid) (tasks w)
          in case (today, nextWeek, endOfToday) of
               (Some td, Some nw, Some et) \<Rightarrow>
                 Success (Some
                   \<lparr>cs_todayTasks = length (filter (dueWithin td et) mine),
                    cs_weekTasks = length (filter (dueWithin td nw) mine),
                    cs_upcomingDeadlines =
                      length (filter (\<lambda>t. t_status t \<noteq> ''DONE'' \<and> dueWithin td nw t) mine)\<rparr>)
                   None
             | _ \<Rightarrow> Failure ''Failed to fetch calendar statistics''))"

definition checkPTOForDate :: "env \<Rightarrow> session \<Rightarrow> string \<Rightarrow> world \<Rightarrow> ptoCheck response" where
  "checkPTOForDate e s date w =
     (case caller s of
        None \<Rightarrow> Failure ''Unauthorized''
      | Some uid \<Rightarrow>
         (case DateOfString e date of
            None \<Rightarrow> Failure ''Failed to check PTO''
          | Some targetDate \<Rightarrow>
             (case find (\<lambda>p. pto_userId p = uid \<and> pto_status p = ''APPROVED''
                             \<and> pto_startDate p \<le> targetDate \<and> pto_endDate p \<ge> targetDate)
                     (ptoRequests w) of
                Some p \<Rightarrow> Success (Some \<lparr>hasPTO = True, pto = Some p\<rparr>) None
              | None \<Rightarrow> Success (Some \<lparr>hasPTO = False, pto = None\<rparr>) None)))"

section \<open>Settings (settings.ts)\<close>

record preferencesPayload =
  pp_theme :: "string option"
  pp_language :: "string option"
  pp_timezone :: "string option"

record notificationPayload =
  np_emailNotifications :: "bool option"
  np_projectUpdates :: "bool option"
  np_teamActivity :: "bool option"
  np_loginAlerts :: "bool option"

text \<open>\<open>x || d\<close> on an optional string, and \<open>x ?? d\<close> on an optional boolean.\<close>

definition orDefault :: "string option \<Rightarrow> string \<Rightarrow> string" where
  "orDefault x d = (case x of None \<Rightarrow> d | Some v \<Rightarrow> if v = [] then d else v)"

definition nullish :: "bool option \<Rightarrow> bool \<Rightarrow> bool" where
  "nullish x d = (case x of None \<Rightarrow> d | Some v \<Rightarrow> v)"

definition updateUserPreferences ::
  "session \<Rightarrow> preferencesPayload \<Rightarrow> world \<Rightarrow> preferences response \<times> world" where
  "updateUserPreferences s payload w =
     (case caller s of
        None \<Rightarrow> (Failure ''Unauthorized'', w)
      | Some uid \<Rightarrow>
         (let preferencesData = \<lparr>theme = orDefault (pp_theme payload) ''light'',
                                 language = orDefault (pp_language payload) ''English'',
                                 timezone = orDefault (pp_timezone payload) ''UTC''\<rparr>;
              w1 = w\<lparr>users := updateRows u_id uid
                                 (\<lambda>u. u\<lparr>u_preferences := Some preferencesData\<rparr>) (users w)\<rparr>
          in (Success (Some preferencesData) (Some ''Preferences updated successfully''),
              revalidatePath ''/profile'' (revalidatePath ''/settings'' w1))))"

definition updateNotificationSettings ::
  "session \<Rightarrow> notificationPayload \<Rightarrow> world \<Rightarrow> notificationSettings response \<times> world" where
  "updateNotificationSettings s payload w =
     (case caller s of
        None \<Rightarrow> (Failure ''Unauthorized'', w)
      | Some uid \<Rightarrow>
         (let notificationData =
                \<lparr>emailNotifications = nullish (np_emailNotifications payload) True,
                 projectUpdates = nullish (np_projectUpdates payload) True,
                 teamActivity = nullish (np_teamActivity payload) True,
                 loginAlerts = nullish (np_loginAlerts payload) True\<rparr>;
              w1 = w\<lparr>users := updateRows u_id uid
                                 (\<lambda>u. u\<lparr>u_notificationSettings := Some notificationData\<rparr>)
                                 (users w)\<rparr>
          in (Success (Some notificationData)
                (Some ''Notification settings updated successfully''),
              revalidatePath ''/settings'' w1)))"

definition deleteUserAccount :: "session \<Rightarrow> world \<Rightarrow> unit response \<times> world" where
  "deleteUserAccount s w =
     (case caller s of
        None \<Rightarrow> (Failure ''Unauthorized'', w)
      | Some uid \<Rightarrow> (Success None (Some ''Account deleted successfully''), w))"

section \<open>The preferences route (api/user/preferences/route.ts)\<close>

text \<open>
  \<open>GET\<close> answers with a JSON body and an HTTP status; it is a route, not a server action,
  and has its own shape of answer. \<open>user?.preferences || { ... }\<close>.
\<close>

datatype routeResponse = ErrorJson string nat | PreferencesJson preferences

definition GET :: "session \<Rightarrow> world \<Rightarrow> routeResponse" where
  "GET s w =
     (case caller s of
        None \<Rightarrow> ErrorJson ''Unauthorized'' 401
      | Some uid \<Rightarrow>
         (let user = find (\<lambda>u. u_id u = uid) (users w)
          in PreferencesJson
               (case user of
                  None \<Rightarrow> \<lparr>theme = ''light'', language = ''English'', timezone = ''UTC''\<rparr>
                | Some u \<Rightarrow>
                   (case u_preferences u of
                      None \<Rightarrow> \<lparr>theme = ''light'', language = ''English'', timezone = ''UTC''\<rparr>
                    | Some p \<Rightarrow> p))))"

section \<open>A concrete store\<close>

text \<open>
  Two users, Alice and Bob. Monday 2024-01-01 at 00:00:00.000 is the time value
  1704067200000 (day number 19723). Alice has a goal, a draft timesheet for that week with
  one entry, an approved timesheet for the week after with one entry, a task, a review in
  a cycle, and an approved request for three days off. Bob acts on Alice's records in the
  examples of the ownership checks. The clock of \<open>env0\<close> shows Wednesday 2024-01-03 at
  01:00, and local time is UTC.
\<close>

definition env0 :: env where
  "env0 = \<lparr>now = 1704067200000 + 2 * 86400000 + 3600000, localTZA = 0,
           parseDate = (\<lambda>str. None), newId = ''n1'', toISOString = (\<lambda>d. ''iso''),
           errorMessage = ''store error''\<rparr>"

definition user_alice :: user where
  "user_alice = \<lparr>u_id = ''alice'', u_name = Some ''Alice'', u_email = ''alice@example.org'',
                 u_preferences = Some \<lparr>theme = ''dark'', language = ''Deutsch'',
                                        timezone = ''Europe/Berlin''\<rparr>,
                 u_notificationSettings = None\<rparr>"

definition user_bob :: user where
  "user_bob = \<lparr>u_id = ''bob'', u_name = None, u_email = ''bob@example.org'',
               u_preferences = None, u_notificationSettings = None\<rparr>"

definition project0 :: project where
  "project0 = \<lparr>p_id = ''p1'', p_name = ''Apollo'', p_status = ''ACTIVE''\<rparr>"

definition goal0 :: goal where
  "goal0 = \<lparr>g_id = ''g1'', g_userId = ''alice'', g_title = ''Ship'', g_description = None,
            g_targetDate = None, g_progress = 10, g_status = ''active'', g_updatedAt = 0\<rparr>"

definition timesheet_draft :: timesheet where
  "timesheet_draft = \<lparr>ts_id = ''ts1'', ts_userId = ''alice'', ts_weekStart = 1704067200000,
                      ts_weekEnd = 1704671999999, ts_totalHours = 8, ts_status = DRAFT,
                      ts_approverId = None, ts_updatedAt = 0\<rparr>"

definition timesheet_approved :: timesheet where
  "timesheet_approved = \<lparr>ts_id = ''ts2'', ts_userId = ''alice'', ts_weekStart = 1704672000000,
                         ts_weekEnd = 1705276799999, ts_totalHours = 4, ts_status = APPROVED,
                         ts_approverId = Some ''bob'', ts_updatedAt = 0\<rparr>"

definition entry_draft :: timesheetEntry where
  "entry_draft = \<lparr>te_id = ''e1'', te_timesheetId = ''ts1'', te_date = 1704067200000,
                  te_projectId = ''p1'', te_hours = 8, te_description = None,
                  te_billable = True\<rparr>"

definition entry_approved :: timesheetEntry where
  "entry_approved = \<lparr>te_id = ''e2'', te_timesheetId = ''ts2'', te_date = 1704672000000,
                     te_projectId = ''p1'', te_hours = 4, te_description = None,
                     te_billable = False\<rparr>"

definition task0 :: task where
  "task0 = \<lparr>t_id = ''t1'', t_title = ''Write report'', t_description = None,
            t_status = ''TODO'', t_priority = ''HIGH'',
            t_dueDate = Some (1704067200000 + 2 * 86400000 + 32400000),
            t_projectId = Some ''p1'', t_assigneeId = Some ''alice'',
            t_reporterId = Some ''alice'', t_estimatedHours = Some 5, t_actualHours = None,
            t_createdAt = 0, t_updatedAt = 0\<rparr>"

definition cycle0 :: appraisalCycle where
  "cycle0 = \<lparr>ac_id = ''c1'', ac_name = ''H1'', ac_startDate = 0,
             ac_endDate = 1704067200000 + 5 * 86400000, ac_status = IN_PROGRESS\<rparr>"

definition review0 :: appraisalReview where
  "review0 = \<lparr>ar_id = ''r1'', ar_cycleId = ''c1'', ar_userId = ''alice'',
              ar_selfReview = None, ar_rating = None, ar_finalRating = None,
              ar_status = AppraisalStatus_DRAFT, ar_submittedAt = None,
              ar_createdAt = 0, ar_updatedAt = 0\<rparr>"

definition pto0 :: pTORequest where
  "pto0 = \<lparr>pto_id = ''o1'', pto_userId = ''alice'',
           pto_startDate = 1704067200000 + 3 * 86400000,
           pto_endDate = 1704067200000 + 5 * 86400000,
           pto_status = ''APPROVED'', pto_type = ''VACATION'', pto_reason = None\<rparr>"

definition world0 :: world where
  "world0 = \<lparr>users = [user_alice, user_bob], projects = [project0], goals = [goal0],
             timesheets = [timesheet_draft, timesheet_approved],
             timesheetEntries = [entry_draft, entry_approved], tasks = [task0],
             appraisalCycles = [cycle0], appraisalReviews = [review0], ptoRequests = [pto0],
             revalidated = []\<rparr>"


text \<open>
  Payloads of the examples, and the clock and parser they run under: \<open>env_tuesday\<close> reads
  every date string as Tuesday 2024-01-02 at 00:00, in Alice's draft week;
  \<open>env_next_tuesday\<close> reads it as Tuesday 2024-01-09, in her approved week;
  \<open>env_last_day\<close> reads it as the last time value of the Date range, 8,640,000,000,000,000
  (Saturday, 13 September 275760, at 00:00 UTC); \<open>env_plus_one\<close> is \<open>env0\<close> one hour east
  of UTC, on Sunday 2024-01-07 at 23:30 UTC, which is Monday 00:30 there.
\<close>

definition env_tuesday :: env where
  "env_tuesday = env0\<lparr>parseDate := (\<lambda>str. Some (1704067200000 + 86400000))\<rparr>"

definition env_next_tuesday :: env where
  "env_next_tuesday = env0\<lparr>parseDate := (\<lambda>str. Some (1704672000000 + 86400000))\<rparr>"



definition addEntry0 :: addEntryData where
  "addEntry0 = \<lparr>ae_date = ''2024-01-02'', ae_projectId = ''p1'', ae_hours = 5 / 2,
                ae_description = None, ae_billable = None\<rparr>"

definition updateEntry0 :: updateEntryData where
  "updateEntry0 = \<lparr>ue_hours = Some 6, ue_description = None, ue_billable = None\<rparr>"

definition updateEntry_25 :: updateEntryData where
  "updateEntry_25 = \<lparr>ue_hours = Some 25, ue_description = None, ue_billable = None\<rparr>"

definition updateGoal0 :: updateGoalData where
  "updateGoal0 = \<lparr>ug_title = None, ug_description = None, ug_targetDate = None,
                  ug_progress = Some 150, ug_status = None\<rparr>"

definition entry_new :: timesheetEntry where
  "entry_new = \<lparr>te_id = ''n1'', te_timesheetId = ''ts1'', te_date = 1704067200000 + 86400000,
                te_projectId = ''p1'', te_hours = 5 / 2, te_description = None,
                te_billable = False\<rparr>"

definition createGoal0 :: createGoalData where
  "createGoal0 = \<lparr>cg_title = ''Learn'', cg_description = None, cg_targetDate = None,
                  cg_category = None, cg_priority = None\<rparr>"

definition createTask0 :: createTaskData where
  "createTask0 = \<lparr>ct_title = ''Review'', ct_description = None, ct_priority = None,
                  ct_projectId = None, ct_dueDate = None, ct_estimatedHours = Some 5\<rparr>"

definition goalFilter0 :: goalFilter where
  "goalFilter0 = \<lparr>gf_status = Some ''active'', gf_category = None\<rparr>"

text \<open>A payload that names a theme only and gives an empty time zone.\<close>

definition preferences0 :: preferencesPayload where
  "preferences0 = \<lparr>pp_theme = Some ''auto'', pp_language = None, pp_timezone = Some []\<rparr>"

definition notifications0 :: notificationPayload where
  "notifications0 = \<lparr>np_emailNotifications = Some False, np_projectUpdates = None,
                     np_teamActivity = None, np_loginAlerts = None\<rparr>"

text \<open>
  The calendar window of the examples: from Monday 2024-01-01 at 00:00 to ten days later.
  A request over three days, Thursday to Saturday, that starts at 09:00 and ends at 08:00,
  and the store in which it is Alice's only request.
\<close>

definition window_start :: jsdate where
  "window_start = 1704067200000"

definition window_end :: jsdate where
  "window_end = 1704067200000 + 10 * 86400000"

definition pto_late_start :: pTORequest where
  "pto_late_start = pto0\<lparr>pto_startDate := 1704067200000 + 3 * 86400000 + 9 * 3600000,
                          pto_endDate := 1704067200000 + 5 * 86400000 + 8 * 3600000\<rparr>"

definition world_late_start :: world where
  "world_late_start = world0\<lparr>ptoRequests := [pto_late_start]\<rparr>"


section \<open>Predicates of the specification\<close>

text \<open>
  The stored total of the timesheets with the given id is the sum of the hours of the
  entries that belong to it, and there is such a timesheet.
\<close>

definition totalHoursConsistent :: "world \<Rightarrow> string \<Rightarrow> bool" where
  "totalHoursConsistent w tid =
     ((\<exists>t\<in>set (timesheets w). ts_id t = tid)
      \<and> (\<forall>t\<in>set (timesheets w). ts_id t = tid \<longrightarrow>
             ts_totalHours t = sum_list (map te_hours (entriesOf w tid))))"

text \<open>
  Ownership, as the specification has it: a goal, a timesheet, a review or a task with the
  id belongs to the user; an entry with the id belongs to a timesheet of the user.
\<close>

definition ownsGoal :: "world \<Rightarrow> string \<Rightarrow> string \<Rightarrow> bool" where
  "ownsGoal w uid goalId = (\<exists>g\<in>set (goals w). g_id g = goalId \<and> g_userId g = uid)"

definition ownsTimesheet :: "world \<Rightarrow> string \<Rightarrow> string \<Rightarrow> bool" where
  "ownsTimesheet w uid timesheetId =
     (\<exists>t\<in>set (timesheets w). ts_id t = timesheetId \<and> ts_userId t = uid)"

definition ownsEntry :: "world \<Rightarrow> string \<Rightarrow> string \<Rightarrow> bool" where
  "ownsEntry w uid entryId =
     (\<exists>en\<in>set (timesheetEntries w). te_id en = entryId \<and>
        (\<exists>t\<in>set (timesheets w). ts_id t = te_timesheetId en \<and> ts_userId t = uid))"

definition ownsAppraisal :: "world \<Rightarrow> string \<Rightarrow> string \<Rightarrow> bool" where
  "ownsAppraisal w uid appraisalId =
     (\<exists>a\<in>set (appraisalReviews w). ar_id a = appraisalId \<and> ar_userId a = uid)"

definition ownsTask :: "world \<Rightarrow> string \<Rightarrow> string \<Rightarrow> bool" where
  "ownsTask w uid taskId =
     (\<exists>t\<in>set (tasks w). t_id t = taskId \<and> t_assigneeId t = Some uid)"

text \<open>The events of a successful calendar result.\<close>

definition eventsOf :: "CalendarEvent list response \<Rightarrow> CalendarEvent list" where
  "eventsOf r = (case r of Success (Some evs) m \<Rightarrow> evs | _ \<Rightarrow> [])"




section \<open>Lemmas on the store\<close>

lemma find_updateRows:
  assumes "\<And>r. P (f r) = P r"
  shows "find P (updateRows key k f tbl)
         = map_option (\<lambda>r. if key r = k then f r else r) (find P tbl)"
  using assms by (induction tbl) (auto simp: updateRows_def)

lemma findGoal_revalidatePath:
  "findGoal goalId uid (revalidatePath p w) = findGoal goalId uid w"
  by (simp add: findGoal_def revalidatePath_def)

lemma findGoal_Some:
  "findGoal goalId uid w = Some g \<Longrightarrow> g_id g = goalId \<and> g_userId g = uid \<and> g \<in> set (goals w)"
  by (auto simp: findGoal_def find_Some_iff)

lemma findGoal_updateRows:
  assumes "\<And>g. g_id (f g) = g_id g" and "\<And>g. g_userId (f g) = g_userId g"
    and "findGoal goalId uid w = Some goal"
  shows "findGoal goalId uid (w\<lparr>goals := updateRows g_id goalId f (goals w)\<rparr>) = Some (f goal)"
proof -
  have "find (\<lambda>g. g_id g = goalId \<and> g_userId g = uid) (updateRows g_id goalId f (goals w))
        = map_option (\<lambda>r. if g_id r = goalId then f r else r)
            (find (\<lambda>g. g_id g = goalId \<and> g_userId g = uid) (goals w))"
    by (rule find_updateRows) (simp add: assms(1,2))
  then show ?thesis
    using assms(3) findGoal_Some [OF assms(3)] by (simp add: findGoal_def)
qed

section \<open>Goal progress\<close>

text \<open>
  C5. An authenticated call of \<open>updateGoalProgress\<close> on a goal of the caller succeeds;
  the goal found afterwards under the same id and owner is the one returned; its progress
  is the input clamped to 0..100 (0 for an input below 0, 100 for an input above 100, the
  input otherwise); its status is \<open>completed\<close> when the input is 100 or more, whatever it
  was; otherwise \<open>in-progress\<close> when the input is above 0 and the status was \<open>active\<close>;
  otherwise the status it had.
\<close>

theorem updateGoalProgress_clamps_and_derives_status:
  assumes "caller s = Some uid" and "findGoal goalId uid w = Some goal"
  shows "\<exists>g'. fst (updateGoalProgress e s goalId progress w) = Success (Some g') None
           \<and> findGoal goalId uid (snd (updateGoalProgress e s goalId progress w)) = Some g'
           \<and> g_progress g' = max 0 (min 100 progress)
           \<and> (if progress < 0 then g_progress g' = 0
               else if progress > 100 then g_progress g' = 100
               else g_progress g' = progress)
           \<and> (if progress \<ge> 100 then g_status g' = ''completed''
               else if 0 < progress \<and> g_status goal = ''active'' then g_status g' = ''in-progress''
               else g_status g' = g_status goal)"
proof -
  define vp where "vp = max 0 (min 100 progress)"
  define st where "st = (if vp \<ge> 100 then ''completed''
             else if vp > 0 \<and> g_status goal = ''active'' then ''in-progress'' else g_status goal)"
  define upd :: "goal \<Rightarrow> goal"
    where "upd = (\<lambda>g. g\<lparr>g_progress := vp, g_status := st, g_updatedAt := now e\<rparr>)"
  have run: "updateGoalProgress e s goalId progress w
      = (Success (Some (upd goal)) None,
         revalidatePath ''/employee/goals'' (w\<lparr>goals := updateRows g_id goalId upd (goals w)\<rparr>))"
    using assms by (simp add: updateGoalProgress_def Let_def upd_def st_def vp_def)
  have stored: "findGoal goalId uid (snd (updateGoalProgress e s goalId progress w)) = Some (upd goal)"
    unfolding run snd_conv findGoal_revalidatePath
    by (rule findGoal_updateRows) (simp_all add: upd_def assms(2))
  have prog: "if progress < 0 then vp = 0 else if progress > 100 then vp = 100 else vp = progress"
    by (simp add: vp_def max_def min_def)
  have stat: "if progress \<ge> 100 then st = ''completed''
               else if 0 < progress \<and> g_status goal = ''active'' then st = ''in-progress''
               else st = g_status goal"
    by (auto simp: st_def vp_def max_def min_def)
  have fields: "g_progress (upd goal) = vp" "g_status (upd goal) = st"
    by (simp_all add: upd_def)
  show ?thesis
    apply (rule exI [of _ "upd goal"])
    using run stored prog stat fields vp_def by simp
qed

text \<open>
  Alice sets the progress of her active goal to 150, to 40 and to -3: stored are 100 and
  \<open>completed\<close>, 40 and \<open>in-progress\<close>, 0 and \<open>active\<close>.
\<close>

theorem updateGoalProgress_clamps_and_derives_status_witness:
  "caller (Some ''alice'') = Some ''alice''
   \<and> findGoal ''g1'' ''alice'' world0 = Some goal0
   \<and> (\<exists>g'. findGoal ''g1'' ''alice''
               (snd (updateGoalProgress env0 (Some ''alice'') ''g1'' 150 world0)) = Some g'
           \<and> g_progress g' = 100 \<and> g_status g' = ''completed'')
   \<and> (\<exists>g'. findGoal ''g1'' ''alice''
               (snd (updateGoalProgress env0 (Some ''alice'') ''g1'' 40 world0)) = Some g'
           \<and> g_progress g' = 40 \<and> g_status g' = ''in-progress'')
   \<and> (\<exists>g'. findGoal ''g1'' ''alice''
               (snd (updateGoalProgress env0 (Some ''alice'') ''g1'' (- 3) world0)) = Some g'
           \<and> g_progress g' = 0 \<and> g_status g' = ''active'')"
proof -
  have c: "caller (Some ''alice'') = Some ''alice''"
    by (simp add: caller_def)
  have f: "findGoal ''g1'' ''alice'' world0 = Some goal0"
    by (simp add: findGoal_def world0_def goal0_def)
  have st: "g_status goal0 = ''active''"
    by (simp add: goal0_def)
  have hi: "\<exists>g'. findGoal ''g1'' ''alice''
               (snd (updateGoalProgress env0 (Some ''alice'') ''g1'' 150 world0)) = Some g'
           \<and> g_progress g' = 100 \<and> g_status g' = ''completed''"
    using updateGoalProgress_clamps_and_derives_status [OF c f, of env0 150] by auto
  have mid: "\<exists>g'. findGoal ''g1'' ''alice''
               (snd (updateGoalProgress env0 (Some ''alice'') ''g1'' 40 world0)) = Some g'
           \<and> g_progress g' = 40 \<and> g_status g' = ''in-progress''"
    using updateGoalProgress_clamps_and_derives_status [OF c f, of env0 40] st by auto
  have lo: "\<exists>g'. findGoal ''g1'' ''alice''
               (snd (updateGoalProgress env0 (Some ''alice'') ''g1'' (- 3) world0)) = Some g'
           \<and> g_progress g' = 0 \<and> g_status g' = ''active''"
    using updateGoalProgress_clamps_and_derives_status [OF c f, of env0 "- 3"] st by auto
  show ?thesis
    using c f hi mid lo by blast
qed

section \<open>Dates\<close>



lemma TimeWithinDay_bounds: "0 \<le> TimeWithinDay t \<and> TimeWithinDay t < msPerDay"
  by (simp add: TimeWithinDay_def msPerDay_def)

lemma MakeDate_Day_TimeWithinDay: "MakeDate (Day t) (TimeWithinDay t) = t"
  by (simp add: MakeDate_def Day_def TimeWithinDay_def)

lemma setDate_getDate: "setDate tza t (getDate tza t + k) = TimeClip (t + k * msPerDay)"
proof -
  define lt where "lt = LocalTime tza t"
  have "MakeDate (Day lt - (DateFromDay (Day lt) - 1) + (DateFromDay (Day lt) + k - 1))
          (TimeWithinDay lt) = lt + k * msPerDay"
    by (simp add: MakeDate_def Day_def TimeWithinDay_def algebra_simps)
  then show ?thesis
    by (simp add: setDate_def getDate_def Let_def lt_def [symmetric] UTC_def)
       (simp add: lt_def LocalTime_def)
qed









section \<open>Timesheet totals\<close>

lemma orZero_sumHours: "orZero (sumHours rows) = sum_list (map te_hours rows)"
  by (simp add: orZero_def sumHours_def)

lemma entriesOf_updateTotalHours: "entriesOf (updateTotalHours tid w) x = entriesOf w x"
  by (simp add: entriesOf_def updateTotalHours_def)

lemma updateRows_mem:
  "r \<in> set tbl \<Longrightarrow> (if key r = k then f r else r) \<in> set (updateRows key k f tbl)"
  by (auto simp: updateRows_def)

lemma updateRows_memD:
  "r' \<in> set (updateRows key k f tbl) \<Longrightarrow> \<exists>r\<in>set tbl. r' = (if key r = k then f r else r)"
  by (auto simp: updateRows_def)

lemma updateTotalHours_consistent:
  assumes "t0 \<in> set (timesheets w)" and "ts_id t0 = tid"
  shows "totalHoursConsistent (updateTotalHours tid w) tid"
proof -
  define S where "S = sum_list (map te_hours (entriesOf w tid))"
  define f :: "timesheet \<Rightarrow> timesheet" where "f = (\<lambda>t. t\<lparr>ts_totalHours := S\<rparr>)"
  have ts: "timesheets (updateTotalHours tid w) = updateRows ts_id tid f (timesheets w)"
    by (simp add: updateTotalHours_def f_def S_def orZero_sumHours)
  have "f t0 \<in> set (updateRows ts_id tid f (timesheets w))"
    using updateRows_mem [OF assms(1), of ts_id tid f] assms(2) by simp
  moreover have "ts_id (f t0) = tid"
    by (simp add: f_def assms(2))
  ultimately have ex: "\<exists>t\<in>set (timesheets (updateTotalHours tid w)). ts_id t = tid"
    unfolding ts by blast
  have all: "\<forall>t\<in>set (timesheets (updateTotalHours tid w)). ts_id t = tid \<longrightarrow> ts_totalHours t = S"
    unfolding ts by (auto dest!: updateRows_memD simp: f_def split: if_splits)
  show ?thesis
    unfolding totalHoursConsistent_def entriesOf_updateTotalHours
    using ex all by (simp add: S_def)
qed

lemma totalHoursConsistent_revalidatePath:
  "totalHoursConsistent (revalidatePath p w) tid = totalHoursConsistent w tid"
  by (simp add: totalHoursConsistent_def revalidatePath_def entriesOf_def)

lemma createRow_Some: "createRow key r tbl = Some tbl' \<Longrightarrow> tbl' = tbl @ [r]"
  by (auto simp: createRow_def split: if_splits)

lemma findTimesheetOfWeek_Some:
  "findTimesheetOfWeek uid ws w = Some t \<Longrightarrow> t \<in> set (timesheets w) \<and> ts_userId t = uid \<and> ts_weekStart t = ws"
  by (auto simp: findTimesheetOfWeek_def find_Some_iff)

lemma getOrCreateTimesheet_Some:
  assumes "getOrCreateTimesheet e uid ws we w = Some (t, w1)"
  shows "t \<in> set (timesheets w1)" and "ts_userId t = uid" and "ts_weekStart t = ws"
    and "findTimesheetOfWeek uid ws w = None \<Longrightarrow> we = Some (ts_weekEnd t)"
  using assms
  by (auto simp: getOrCreateTimesheet_def Let_def newTimesheet_def
           dest!: findTimesheetOfWeek_Some createRow_Some split: option.splits)

lemma addTimesheetEntry_Success:
  assumes "addTimesheetEntry e s ad w = (Success d m, w')"
  shows "\<exists>entry. d = Some entry \<and> entry \<in> set (timesheetEntries w')
            \<and> totalHoursConsistent w' (te_timesheetId entry)"
proof -
  from assms obtain uid ws we timesheet w1 entry ens where
    g: "getOrCreateTimesheet e uid ws we w = Some (timesheet, w1)"
    and c: "createRow te_id entry (timesheetEntries w1) = Some ens"
    and tid: "te_timesheetId entry = ts_id timesheet"
    and d: "d = Some entry"
    and w': "w' = revalidatePath ''/employee'' (revalidatePath ''/employee/timesheet''
               (updateTotalHours (ts_id timesheet) (w1\<lparr>timesheetEntries := ens\<rparr>)))"
    by (fastforce simp: addTimesheetEntry_def Let_def split: option.splits if_splits prod.splits)
  have t: "timesheet \<in> set (timesheets w1)"
    using getOrCreateTimesheet_Some(1) [OF g] .
  have "totalHoursConsistent (updateTotalHours (ts_id timesheet) (w1\<lparr>timesheetEntries := ens\<rparr>)) (ts_id timesheet)"
    by (rule updateTotalHours_consistent [of timesheet]) (use t in auto)
  moreover have "entry \<in> set (timesheetEntries w')"
    using createRow_Some [OF c] by (simp add: w' revalidatePath_def updateTotalHours_def)
  ultimately show ?thesis
    by (simp add: d w' tid totalHoursConsistent_revalidatePath)
qed


lemma timesheetOf_Some:
  "timesheetOf w en = Some t \<Longrightarrow> t \<in> set (timesheets w) \<and> ts_id t = te_timesheetId en"
  by (auto simp: timesheetOf_def find_Some_iff)

lemma findEntry_Some:
  assumes "findEntry entryId uid w = Some (en, t)"
  shows "en \<in> set (timesheetEntries w) \<and> te_id en = entryId \<and> timesheetOf w en = Some t
         \<and> ts_userId t = uid"
  using assms
  by (auto simp: findEntry_def find_Some_iff split: option.splits)

lemma findEntry_None:
  assumes "\<not> ownsEntry w uid entryId"
  shows "findEntry entryId uid w = None"
proof -
  have "\<not> (te_id en = entryId \<and>
            (case timesheetOf w en of None \<Rightarrow> False | Some t \<Rightarrow> ts_userId t = uid))"
    if "en \<in> set (timesheetEntries w)" for en
    using assms that unfolding ownsEntry_def
    by (auto split: option.splits dest!: timesheetOf_Some)
  then have "find (\<lambda>en. te_id en = entryId \<and>
                (case timesheetOf w en of None \<Rightarrow> False | Some t \<Rightarrow> ts_userId t = uid))
              (timesheetEntries w) = None"
    unfolding find_None_iff by blast
  then show ?thesis
    by (simp add: findEntry_def)
qed

lemma updateTimesheetEntry_Success:
  assumes "updateTimesheetEntry s entryId ud w = (Success d m, w')"
  shows "\<exists>uid entry t. caller s = Some uid \<and> findEntry entryId uid w = Some (entry, t)
            \<and> d = Some (applyUpdateEntryData ud entry)
            \<and> totalHoursConsistent w' (te_timesheetId entry)"
proof -
  from assms obtain uid entry t where
    c: "caller s = Some uid"
    and f: "findEntry entryId uid w = Some (entry, t)"
    and d: "d = Some (applyUpdateEntryData ud entry)"
    and w': "w' = revalidatePath ''/employee/timesheet''
               (updateTotalHours (te_timesheetId entry)
                  (w\<lparr>timesheetEntries :=
                       updateRows te_id entryId (applyUpdateEntryData ud) (timesheetEntries w)\<rparr>))"
    by (fastforce simp: updateTimesheetEntry_def Let_def split: option.splits if_splits prod.splits)
  have t: "t \<in> set (timesheets w)" "ts_id t = te_timesheetId entry"
    using findEntry_Some [OF f] timesheetOf_Some by blast+
  have "totalHoursConsistent
          (updateTotalHours (te_timesheetId entry)
             (w\<lparr>timesheetEntries :=
                  updateRows te_id entryId (applyUpdateEntryData ud) (timesheetEntries w)\<rparr>))
          (te_timesheetId entry)"
    by (rule updateTotalHours_consistent [of t]) (use t in auto)
  then show ?thesis
    using c f d by (simp add: w' totalHoursConsistent_revalidatePath)
qed

lemma deleteTimesheetEntry_Success:
  assumes "deleteTimesheetEntry s entryId w = (Success d m, w')"
  shows "\<exists>uid entry t. caller s = Some uid \<and> findEntry entryId uid w = Some (entry, t)
            \<and> timesheetEntries w' = deleteRows te_id entryId (timesheetEntries w)
            \<and> totalHoursConsistent w' (te_timesheetId entry)"
proof -
  from assms obtain uid entry t where
    c: "caller s = Some uid"
    and f: "findEntry entryId uid w = Some (entry, t)"
    and w': "w' = revalidatePath ''/employee/timesheet''
               (updateTotalHours (te_timesheetId entry)
                  (w\<lparr>timesheetEntries := deleteRows te_id entryId (timesheetEntries w)\<rparr>))"
    by (fastforce simp: deleteTimesheetEntry_def Let_def split: option.splits if_splits prod.splits)
  have t: "t \<in> set (timesheets w)" "ts_id t = te_timesheetId entry"
    using findEntry_Some [OF f] timesheetOf_Some by blast+
  have "totalHoursConsistent
          (updateTotalHours (te_timesheetId entry)
             (w\<lparr>timesheetEntries := deleteRows te_id entryId (timesheetEntries w)\<rparr>))
          (te_timesheetId entry)"
    by (rule updateTotalHours_consistent [of t]) (use t in auto)
  moreover have "timesheetEntries w' = deleteRows te_id entryId (timesheetEntries w)"
    by (simp add: w' revalidatePath_def updateTotalHours_def)
  ultimately show ?thesis
    using c f by (simp add: w' totalHoursConsistent_revalidatePath)
qed

text \<open>
  C3. When \<open>addTimesheetEntry\<close>, \<open>updateTimesheetEntry\<close> or \<open>deleteTimesheetEntry\<close>
  succeeds, the parent timesheet of the entry is in the store and its stored total is the
  sum of the hours of the entries that now belong to it; a consistent total over no
  entries is 0.
\<close>

theorem totalHours_is_sum_after_entry_mutation:
  "(addTimesheetEntry e s ad w = (Success d1 m1, w1) \<longrightarrow>
      (\<exists>entry. d1 = Some entry \<and> entry \<in> set (timesheetEntries w1)
          \<and> totalHoursConsistent w1 (te_timesheetId entry)))
   \<and> (updateTimesheetEntry s entryId ud w = (Success d2 m2, w2) \<longrightarrow>
      (\<exists>uid entry t. caller s = Some uid \<and> findEntry entryId uid w = Some (entry, t)
          \<and> d2 = Some (applyUpdateEntryData ud entry)
          \<and> totalHoursConsistent w2 (te_timesheetId entry)))
   \<and> (deleteTimesheetEntry s entryId w = (Success d3 m3, w3) \<longrightarrow>
      (\<exists>uid entry t. caller s = Some uid \<and> findEntry entryId uid w = Some (entry, t)
          \<and> timesheetEntries w3 = deleteRows te_id entryId (timesheetEntries w)
          \<and> totalHoursConsistent w3 (te_timesheetId entry)))
   \<and> (totalHoursConsistent w4 tid \<and> entriesOf w4 tid = [] \<longrightarrow>
      (\<exists>t\<in>set (timesheets w4). ts_id t = tid)
      \<and> (\<forall>t\<in>set (timesheets w4). ts_id t = tid \<longrightarrow> ts_totalHours t = 0))"
  using addTimesheetEntry_Success updateTimesheetEntry_Success deleteTimesheetEntry_Success
  by (auto simp: totalHoursConsistent_def)

text \<open>
  Alice adds 2.5 hours to her draft week (8 hours so far), sets her entry of 8 hours to 6,
  and deletes it: the totals of her two timesheets are 10.5 and 4, then 6 and 4, then 0
  and 4.
\<close>

theorem totalHours_is_sum_after_entry_mutation_witness:
  "fst (addTimesheetEntry env_tuesday (Some ''alice'') addEntry0 world0)
     = Success (Some entry_new) None
   \<and> totalHoursConsistent (snd (addTimesheetEntry env_tuesday (Some ''alice'') addEntry0 world0))
        ''ts1''
   \<and> map ts_totalHours
        (timesheets (snd (addTimesheetEntry env_tuesday (Some ''alice'') addEntry0 world0)))
      = [21 / 2, 4]
   \<and> fst (updateTimesheetEntry (Some ''alice'') ''e1'' updateEntry0 world0)
     = Success (Some (entry_draft\<lparr>te_hours := 6\<rparr>)) None
   \<and> totalHoursConsistent (snd (updateTimesheetEntry (Some ''alice'') ''e1'' updateEntry0 world0))
        ''ts1''
   \<and> map ts_totalHours
        (timesheets (snd (updateTimesheetEntry (Some ''alice'') ''e1'' updateEntry0 world0)))
      = [6, 4]
   \<and> fst (deleteTimesheetEntry (Some ''alice'') ''e1'' world0) = Success None None
   \<and> totalHoursConsistent (snd (deleteTimesheetEntry (Some ''alice'') ''e1'' world0)) ''ts1''
   \<and> entriesOf (snd (deleteTimesheetEntry (Some ''alice'') ''e1'' world0)) ''ts1'' = []
   \<and> map ts_totalHours (timesheets (snd (deleteTimesheetEntry (Some ''alice'') ''e1'' world0)))
      = [0, 4]
   \<and> (\<exists>t\<in>set (timesheets (snd (deleteTimesheetEntry (Some ''alice'') ''e1'' world0))).
         ts_id t = ''ts1'')"
proof -
  let ?a = "addTimesheetEntry env_tuesday (Some ''alice'') addEntry0 world0"
  let ?u = "updateTimesheetEntry (Some ''alice'') ''e1'' updateEntry0 world0"
  let ?d = "deleteTimesheetEntry (Some ''alice'') ''e1'' world0"
  have a1: "fst ?a = Success (Some entry_new) None" by code_simp
  have a2: "map ts_totalHours (timesheets (snd ?a)) = [21 / 2, 4]" by code_simp
  have u1: "fst ?u = Success (Some (entry_draft\<lparr>te_hours := 6\<rparr>)) None" by code_simp
  have u2: "map ts_totalHours (timesheets (snd ?u)) = [6, 4]" by code_simp
  have d1: "fst ?d = Success None None" by code_simp
  have d2: "map ts_totalHours (timesheets (snd ?d)) = [0, 4]" by code_simp
  have d3: "entriesOf (snd ?d) ''ts1'' = []" by code_simp
  have c: "caller (Some ''alice'') = Some ''alice''" by (simp add: caller_def)
  have f: "findEntry ''e1'' ''alice'' world0 = Some (entry_draft, timesheet_draft)" by code_simp
  have ea: "?a = (Success (Some entry_new) None, snd ?a)"
    using a1 by (simp add: prod_eq_iff)
  have eu: "?u = (Success (Some (entry_draft\<lparr>te_hours := 6\<rparr>)) None, snd ?u)"
    using u1 by (simp add: prod_eq_iff)
  have ed: "?d = (Success None None, snd ?d)"
    using d1 by (simp add: prod_eq_iff)
  have tid: "te_timesheetId entry_new = ''ts1''" "te_timesheetId entry_draft = ''ts1''"
    by (simp_all add: entry_new_def entry_draft_def)
  note inst = totalHours_is_sum_after_entry_mutation
    [of env_tuesday "Some ''alice''" addEntry0 world0 "Some entry_new" None "snd ?a"
        "''e1''" updateEntry0 "Some (entry_draft\<lparr>te_hours := 6\<rparr>)" None "snd ?u"
        None None "snd ?d" "snd ?d" "''ts1''"]
  have ca: "totalHoursConsistent (snd ?a) ''ts1''"
    using inst ea tid by auto
  have cu: "totalHoursConsistent (snd ?u) ''ts1''"
    using inst eu f c tid by auto
  have cd: "totalHoursConsistent (snd ?d) ''ts1''"
    using inst ed f c tid by auto
  have z: "\<exists>t\<in>set (timesheets (snd ?d)). ts_id t = ''ts1''"
    using inst cd d3 by blast
  show ?thesis
    using a1 a2 u1 u2 d1 d2 d3 ca cu cd z by simp
qed

section \<open>Approved timesheets\<close>

text \<open>
  C6. When the timesheet that an entry mutation resolves is APPROVED, the handler returns
  a failure and the store is unchanged, so neither its entries nor its total change:
  \<open>addTimesheetEntry\<close> for a date whose week has an approved timesheet of the caller (the
  failure is \<open>Cannot edit approved timesheet\<close> when the payload passes validation, and a
  validation failure otherwise), \<open>updateTimesheetEntry\<close> and \<open>deleteTimesheetEntry\<close> for an
  entry of an approved timesheet of the caller.
\<close>

theorem approved_timesheet_is_not_modified:
  assumes "caller s = Some uid" and "ts_status t = APPROVED"
  shows "(DateOfString e (ae_date ad) = Some entryDate
          \<and> weekStartOf (localTZA e) entryDate = Some ws
          \<and> findTimesheetOfWeek uid ws w = Some t \<longrightarrow>
            (\<exists>msg. addTimesheetEntry e s ad w = (Failure msg, w)
               \<and> (ae_date ad \<noteq> [] \<and> ae_projectId ad \<noteq> [] \<and> 0 < ae_hours ad \<and> ae_hours ad \<le> 24
                    \<longrightarrow> msg = ''Cannot edit approved timesheet'')))
         \<and> (findEntry entryId uid w = Some (en, t) \<longrightarrow>
              updateTimesheetEntry s entryId ud w = (Failure ''Cannot edit approved timesheet'', w)
              \<and> deleteTimesheetEntry s entryId w
                  = (Failure ''Cannot delete from approved timesheet'', w))"
proof -
  have add: "\<exists>msg. addTimesheetEntry e s ad w = (Failure msg, w)
               \<and> (ae_date ad \<noteq> [] \<and> ae_projectId ad \<noteq> [] \<and> 0 < ae_hours ad \<and> ae_hours ad \<le> 24
                    \<longrightarrow> msg = ''Cannot edit approved timesheet'')"
    if p: "DateOfString e (ae_date ad) = Some entryDate"
      and ws: "weekStartOf (localTZA e) entryDate = Some ws"
      and f: "findTimesheetOfWeek uid ws w = Some t"
  proof -
    have g: "getOrCreateTimesheet e uid ws we w = Some (t, w)" for we
      by (simp add: getOrCreateTimesheet_def f)
    show ?thesis
      using assms p ws g by (simp add: addTimesheetEntry_def Let_def)
  qed
  have upd: "updateTimesheetEntry s entryId ud w = (Failure ''Cannot edit approved timesheet'', w)"
    if "findEntry entryId uid w = Some (en, t)"
    using assms that by (simp add: updateTimesheetEntry_def)
  have del: "deleteTimesheetEntry s entryId w = (Failure ''Cannot delete from approved timesheet'', w)"
    if "findEntry entryId uid w = Some (en, t)"
    using assms that by (simp add: deleteTimesheetEntry_def)
  show ?thesis
    using add upd del by blast
qed

text \<open>
  Alice's timesheet for the week of Monday 2024-01-08 is approved: adding an entry on the
  Tuesday of that week, and changing or deleting her entry of that week, fail and leave
  the store as it was.
\<close>

theorem approved_timesheet_is_not_modified_witness:
  "caller (Some ''alice'') = Some ''alice''
   \<and> ts_status timesheet_approved = APPROVED
   \<and> DateOfString env_next_tuesday (ae_date addEntry0) = Some (1704672000000 + 86400000)
   \<and> weekStartOf (localTZA env_next_tuesday) (1704672000000 + 86400000) = Some 1704672000000
   \<and> findTimesheetOfWeek ''alice'' 1704672000000 world0 = Some timesheet_approved
   \<and> findEntry ''e2'' ''alice'' world0 = Some (entry_approved, timesheet_approved)
   \<and> addTimesheetEntry env_next_tuesday (Some ''alice'') addEntry0 world0
       = (Failure ''Cannot edit approved timesheet'', world0)
   \<and> updateTimesheetEntry (Some ''alice'') ''e2'' updateEntry0 world0
       = (Failure ''Cannot edit approved timesheet'', world0)
   \<and> deleteTimesheetEntry (Some ''alice'') ''e2'' world0
       = (Failure ''Cannot delete from approved timesheet'', world0)"
proof -
  have c: "caller (Some ''alice'') = Some ''alice''" by (simp add: caller_def)
  have st: "ts_status timesheet_approved = APPROVED" by (simp add: timesheet_approved_def)
  have p: "DateOfString env_next_tuesday (ae_date addEntry0) = Some (1704672000000 + 86400000)"
    by code_simp
  have ws: "weekStartOf (localTZA env_next_tuesday) (1704672000000 + 86400000)
              = Some 1704672000000"
    by code_simp
  have f: "findTimesheetOfWeek ''alice'' 1704672000000 world0 = Some timesheet_approved"
    by code_simp
  have fe: "findEntry ''e2'' ''alice'' world0 = Some (entry_approved, timesheet_approved)"
    by code_simp
  have v: "ae_date addEntry0 \<noteq> [] \<and> ae_projectId addEntry0 \<noteq> [] \<and> 0 < ae_hours addEntry0
           \<and> ae_hours addEntry0 \<le> 24"
    by (simp add: addEntry0_def)
  note inst = approved_timesheet_is_not_modified
    [OF c st, of env_next_tuesday addEntry0 "1704672000000 + 86400000" 1704672000000 world0
       "''e2''" entry_approved updateEntry0]
  show ?thesis
    using inst c st p ws f fe v by auto
qed


section \<open>The week of a timesheet\<close>







section \<open>Ownership\<close>

lemma findGoal_None: "\<not> ownsGoal w uid goalId \<Longrightarrow> findGoal goalId uid w = None"
  by (auto simp: ownsGoal_def findGoal_def find_None_iff)

lemma findAppraisal_None: "\<not> ownsAppraisal w uid a \<Longrightarrow> findAppraisal a uid w = None"
  by (auto simp: ownsAppraisal_def findAppraisal_def find_None_iff)

lemma findTask_None: "\<not> ownsTask w uid t \<Longrightarrow> findTask t uid w = None"
  by (auto simp: ownsTask_def findTask_def find_None_iff)

lemma findTimesheet_None:
  "\<not> ownsTimesheet w uid tid \<Longrightarrow> find (\<lambda>t. ts_id t = tid \<and> ts_userId t = uid) (timesheets w) = None"
  by (auto simp: ownsTimesheet_def find_None_iff)

text \<open>
  C1. For an authenticated caller and an id that belongs to no record of the caller (a
  goal, a timesheet, a review or a task of the caller; an entry of a timesheet of the
  caller), each of \<open>updateGoal\<close>, \<open>updateGoalProgress\<close>, \<open>deleteGoal\<close>,
  \<open>updateTimesheetEntry\<close>, \<open>deleteTimesheetEntry\<close>, \<open>submitTimesheet\<close>, \<open>updateSelfReview\<close>,
  \<open>submitAppraisal\<close>, \<open>getAppraisalById\<close>, \<open>updateTaskStatus\<close> and \<open>logTaskHours\<close> returns the
  failure \<open>... not found or access denied\<close>, and the store it returns is the store it
  was given (\<open>getAppraisalById\<close> only reads).
\<close>

theorem not_owned_is_denied_and_unchanged:
  assumes "caller s = Some uid"
  shows "(\<not> ownsGoal w uid goalId \<longrightarrow>
            updateGoal e s goalId goalData w = (Failure ''Goal not found or access denied'', w)
          \<and> updateGoalProgress e s goalId progress w
              = (Failure ''Goal not found or access denied'', w)
          \<and> deleteGoal s goalId w = (Failure ''Goal not found or access denied'', w))
       \<and> (\<not> ownsEntry w uid entryId \<longrightarrow>
            updateTimesheetEntry s entryId entryData w
              = (Failure ''Entry not found or access denied'', w)
          \<and> deleteTimesheetEntry s entryId w = (Failure ''Entry not found or access denied'', w))
       \<and> (\<not> ownsTimesheet w uid timesheetId \<longrightarrow>
            submitTimesheet e s timesheetId w
              = (Failure ''Timesheet not found or access denied'', w))
       \<and> (\<not> ownsAppraisal w uid appraisalId \<longrightarrow>
            updateSelfReview e s appraisalId selfReview rating w
              = (Failure ''Appraisal not found or access denied'', w)
          \<and> submitAppraisal e s appraisalId w
              = (Failure ''Appraisal not found or access denied'', w)
          \<and> getAppraisalById s appraisalId w = Failure ''Appraisal not found or access denied'')
       \<and> (\<not> ownsTask w uid taskId \<longrightarrow>
            updateTaskStatus e s taskId status w = (Failure ''Task not found or access denied'', w)
          \<and> logTaskHours e s taskId hours w = (Failure ''Task not found or access denied'', w))"
proof -
  have g: "updateGoal e s goalId goalData w = (Failure ''Goal not found or access denied'', w)"
     "updateGoalProgress e s goalId progress w = (Failure ''Goal not found or access denied'', w)"
     "deleteGoal s goalId w = (Failure ''Goal not found or access denied'', w)"
    if "\<not> ownsGoal w uid goalId"
    using assms findGoal_None [OF that]
    by (simp_all add: updateGoal_def updateGoalProgress_def deleteGoal_def)
  have en: "updateTimesheetEntry s entryId entryData w
              = (Failure ''Entry not found or access denied'', w)"
     "deleteTimesheetEntry s entryId w = (Failure ''Entry not found or access denied'', w)"
    if "\<not> ownsEntry w uid entryId"
    using assms findEntry_None [OF that]
    by (simp_all add: updateTimesheetEntry_def deleteTimesheetEntry_def)
  have ts: "submitTimesheet e s timesheetId w
              = (Failure ''Timesheet not found or access denied'', w)"
    if "\<not> ownsTimesheet w uid timesheetId"
    using assms findTimesheet_None [OF that]
    by (simp add: submitTimesheet_def)
  have ap: "updateSelfReview e s appraisalId selfReview rating w
              = (Failure ''Appraisal not found or access denied'', w)"
     "submitAppraisal e s appraisalId w = (Failure ''Appraisal not found or access denied'', w)"
     "getAppraisalById s appraisalId w = Failure ''Appraisal not found or access denied''"
    if "\<not> ownsAppraisal w uid appraisalId"
    using assms findAppraisal_None [OF that]
    by (simp_all add: updateSelfReview_def submitAppraisal_def getAppraisalById_def)
  have tk: "updateTaskStatus e s taskId status w = (Failure ''Task not found or access denied'', w)"
     "logTaskHours e s taskId hours w = (Failure ''Task not found or access denied'', w)"
    if "\<not> ownsTask w uid taskId"
    using assms findTask_None [OF that]
    by (simp_all add: updateTaskStatus_def logTaskHours_def)
  show ?thesis
    using g en ts ap tk by blast
qed

text \<open>
  Bob names Alice's goal, entry, timesheet, review and task: every handler denies, and
  the store is unchanged.
\<close>

theorem not_owned_is_denied_and_unchanged_witness:
  "caller (Some ''bob'') = Some ''bob''
   \<and> ownsGoal world0 ''alice'' ''g1'' \<and> \<not> ownsGoal world0 ''bob'' ''g1''
   \<and> ownsEntry world0 ''alice'' ''e1'' \<and> \<not> ownsEntry world0 ''bob'' ''e1''
   \<and> ownsTimesheet world0 ''alice'' ''ts1'' \<and> \<not> ownsTimesheet world0 ''bob'' ''ts1''
   \<and> ownsAppraisal world0 ''alice'' ''r1'' \<and> \<not> ownsAppraisal world0 ''bob'' ''r1''
   \<and> ownsTask world0 ''alice'' ''t1'' \<and> \<not> ownsTask world0 ''bob'' ''t1''
   \<and> updateGoal env0 (Some ''bob'') ''g1'' updateGoal0 world0
       = (Failure ''Goal not found or access denied'', world0)
   \<and> updateGoalProgress env0 (Some ''bob'') ''g1'' 50 world0
       = (Failure ''Goal not found or access denied'', world0)
   \<and> deleteGoal (Some ''bob'') ''g1'' world0
       = (Failure ''Goal not found or access denied'', world0)
   \<and> updateTimesheetEntry (Some ''bob'') ''e1'' updateEntry0 world0
       = (Failure ''Entry not found or access denied'', world0)
   \<and> deleteTimesheetEntry (Some ''bob'') ''e1'' world0
       = (Failure ''Entry not found or access denied'', world0)
   \<and> submitTimesheet env0 (Some ''bob'') ''ts1'' world0
       = (Failure ''Timesheet not found or access denied'', world0)
   \<and> updateSelfReview env0 (Some ''bob'') ''r1'' ''Fine'' None world0
       = (Failure ''Appraisal not found or access denied'', world0)
   \<and> submitAppraisal env0 (Some ''bob'') ''r1'' world0
       = (Failure ''Appraisal not found or access denied'', world0)
   \<and> getAppraisalById (Some ''bob'') ''r1'' world0
       = Failure ''Appraisal not found or access denied''
   \<and> updateTaskStatus env0 (Some ''bob'') ''t1'' ''DONE'' world0
       = (Failure ''Task not found or access denied'', world0)
   \<and> logTaskHours env0 (Some ''bob'') ''t1'' 2 world0
       = (Failure ''Task not found or access denied'', world0)"
proof -
  have c: "caller (Some ''bob'') = Some ''bob''" by (simp add: caller_def)
  have own: "ownsGoal world0 ''alice'' ''g1''" "ownsEntry world0 ''alice'' ''e1''"
    "ownsTimesheet world0 ''alice'' ''ts1''" "ownsAppraisal world0 ''alice'' ''r1''"
    "ownsTask world0 ''alice'' ''t1''"
    by code_simp+
  have not: "\<not> ownsGoal world0 ''bob'' ''g1''" "\<not> ownsEntry world0 ''bob'' ''e1''"
    "\<not> ownsTimesheet world0 ''bob'' ''ts1''" "\<not> ownsAppraisal world0 ''bob'' ''r1''"
    "\<not> ownsTask world0 ''bob'' ''t1''"
    by code_simp+
  note inst = not_owned_is_denied_and_unchanged
    [OF c, of world0 "''g1''" env0 updateGoal0 50 "''e1''" updateEntry0 "''ts1''" "''r1''"
       "''Fine''" None "''t1''" "''DONE''" 2]
  show ?thesis
    using inst c own not by simp
qed

section \<open>No caller\<close>

text \<open>
  C2. When the session gives no user id (none, or an empty one), every action handler
  returns \<open>{ success: false, error: "Unauthorized" }\<close>, and the handlers that can write
  return the store they were given. The handlers that only read are functions from the
  store to a response. These are the 36 handlers of the six action files.
\<close>

theorem no_caller_is_unauthorized:
  assumes "caller s = None"
  shows "getCurrentTimesheet e s w = (Failure ''Unauthorized'', w)
       \<and> addTimesheetEntry e s addData w = (Failure ''Unauthorized'', w)
       \<and> updateTimesheetEntry s entryId entryData w = (Failure ''Unauthorized'', w)
       \<and> deleteTimesheetEntry s entryId w = (Failure ''Unauthorized'', w)
       \<and> submitTimesheet e s timesheetId w = (Failure ''Unauthorized'', w)
       \<and> getTimesheetHistory s limit w = Failure ''Unauthorized''
       \<and> getTimesheetStats e s w = Failure ''Unauthorized''
       \<and> getAvailableProjects s w = Failure ''Unauthorized''
       \<and> getMyGoals s w = Failure ''Unauthorized''
       \<and> createGoal e s newGoal w = (Failure ''Unauthorized'', w)
       \<and> updateGoal e s goalId goalData w = (Failure ''Unauthorized'', w)
       \<and> updateGoalProgress e s goalId progress w = (Failure ''Unauthorized'', w)
       \<and> deleteGoal s goalId w = (Failure ''Unauthorized'', w)
       \<and> getGoalStats s w = Failure ''Unauthorized''
       \<and> getFilteredGoals s goalFlt w = Failure ''Unauthorized''
       \<and> getMyAppraisals s w = Failure ''Unauthorized''
       \<and> getCurrentAppraisal e s w = (Failure ''Unauthorized'', w)
       \<and> updateSelfReview e s appraisalId selfReview rating w = (Failure ''Unauthorized'', w)
       \<and> submitAppraisal e s appraisalId w = (Failure ''Unauthorized'', w)
       \<and> getAppraisalStats s w = Failure ''Unauthorized''
       \<and> getAppraisalById s appraisalId w = Failure ''Unauthorized''
       \<and> createTask e s newTask w = (Failure ''Unauthorized'', w)
       \<and> getMyTasks s w = Failure ''Unauthorized''
       \<and> getMyTaskStats e s w = Failure ''Unauthorized''
       \<and> updateTaskStatus e s taskId status w = (Failure ''Unauthorized'', w)
       \<and> logTaskHours e s taskId hours w = (Failure ''Unauthorized'', w)
       \<and> getFilteredTasks e s taskFlt w = Failure ''Unauthorized''
       \<and> getMyCalendarEvents e s startDate endDate w = Failure ''Unauthorized''
       \<and> getEventsForDate e s date w = Failure ''Unauthorized''
       \<and> getUpcomingEvents e s w = Failure ''Unauthorized''
       \<and> getMonthEvents e s year month w = Failure ''Unauthorized''
       \<and> getCalendarStats e s w = Failure ''Unauthorized''
       \<and> checkPTOForDate e s date w = Failure ''Unauthorized''
       \<and> updateUserPreferences s prefs w = (Failure ''Unauthorized'', w)
       \<and> updateNotificationSettings s notif w = (Failure ''Unauthorized'', w)
       \<and> deleteUserAccount s w = (Failure ''Unauthorized'', w)"
proof -
  have timesheet:
    "getCurrentTimesheet e s w = (Failure ''Unauthorized'', w)"
    "addTimesheetEntry e s addData w = (Failure ''Unauthorized'', w)"
    "updateTimesheetEntry s entryId entryData w = (Failure ''Unauthorized'', w)"
    "deleteTimesheetEntry s entryId w = (Failure ''Unauthorized'', w)"
    "submitTimesheet e s timesheetId w = (Failure ''Unauthorized'', w)"
    "getTimesheetHistory s limit w = Failure ''Unauthorized''"
    "getTimesheetStats e s w = Failure ''Unauthorized''"
    "getAvailableProjects s w = Failure ''Unauthorized''"
    using assms
    by (simp_all add: getCurrentTimesheet_def addTimesheetEntry_def updateTimesheetEntry_def
          deleteTimesheetEntry_def submitTimesheet_def getTimesheetHistory_def
          getTimesheetStats_def getAvailableProjects_def)
  have goal:
    "getMyGoals s w = Failure ''Unauthorized''"
    "createGoal e s newGoal w = (Failure ''Unauthorized'', w)"
    "updateGoal e s goalId goalData w = (Failure ''Unauthorized'', w)"
    "updateGoalProgress e s goalId progress w = (Failure ''Unauthorized'', w)"
    "deleteGoal s goalId w = (Failure ''Unauthorized'', w)"
    "getGoalStats s w = Failure ''Unauthorized''"
    "getFilteredGoals s goalFlt w = Failure ''Unauthorized''"
    using assms
    by (simp_all add: getMyGoals_def createGoal_def updateGoal_def updateGoalProgress_def
          deleteGoal_def getGoalStats_def getFilteredGoals_def)
  have appraisal:
    "getMyAppraisals s w = Failure ''Unauthorized''"
    "getCurrentAppraisal e s w = (Failure ''Unauthorized'', w)"
    "updateSelfReview e s appraisalId selfReview rating w = (Failure ''Unauthorized'', w)"
    "submitAppraisal e s appraisalId w = (Failure ''Unauthorized'', w)"
    "getAppraisalStats s w = Failure ''Unauthorized''"
    "getAppraisalById s appraisalId w = Failure ''Unauthorized''"
    using assms
    by (simp_all add: getMyAppraisals_def getCurrentAppraisal_def updateSelfReview_def
          submitAppraisal_def getAppraisalStats_def getAppraisalById_def)
  have task:
    "createTask e s newTask w = (Failure ''Unauthorized'', w)"
    "getMyTasks s w = Failure ''Unauthorized''"
    "getMyTaskStats e s w = Failure ''Unauthorized''"
    "updateTaskStatus e s taskId status w = (Failure ''Unauthorized'', w)"
    "logTaskHours e s taskId hours w = (Failure ''Unauthorized'', w)"
    "getFilteredTasks e s taskFlt w = Failure ''Unauthorized''"
    using assms
    by (simp_all add: createTask_def getMyTasks_def getMyTaskStats_def updateTaskStatus_def
          logTaskHours_def getFilteredTasks_def)
  have calendar:
    "getMyCalendarEvents e s startDate endDate w = Failure ''Unauthorized''"
    "getEventsForDate e s date w = Failure ''Unauthorized''"
    "getUpcomingEvents e s w = Failure ''Unauthorized''"
    "getMonthEvents e s year month w = Failure ''Unauthorized''"
    "getCalendarStats e s w = Failure ''Unauthorized''"
    "checkPTOForDate e s date w = Failure ''Unauthorized''"
    using assms
    by (simp_all add: getMyCalendarEvents_def getEventsForDate_def getUpcomingEvents_def
          getMonthEvents_def getCalendarStats_def checkPTOForDate_def)
  have settings:
    "updateUserPreferences s prefs w = (Failure ''Unauthorized'', w)"
    "updateNotificationSettings s notif w = (Failure ''Unauthorized'', w)"
    "deleteUserAccount s w = (Failure ''Unauthorized'', w)"
    using assms
    by (simp_all add: updateUserPreferences_def updateNotificationSettings_def
          deleteUserAccount_def)
  show ?thesis
    using timesheet goal appraisal task calendar settings by simp
qed

text \<open>
  Without a session, and with a session whose user id is empty, the handlers answer
  \<open>Unauthorized\<close> on the concrete store and leave it as it was.
\<close>

theorem no_caller_is_unauthorized_witness:
  "caller None = None \<and> caller (Some []) = None
   \<and> addTimesheetEntry env_tuesday None addEntry0 world0 = (Failure ''Unauthorized'', world0)
   \<and> createGoal env0 None createGoal0 world0 = (Failure ''Unauthorized'', world0)
   \<and> updateUserPreferences None preferences0 world0 = (Failure ''Unauthorized'', world0)
   \<and> getCurrentTimesheet env0 None world0 = (Failure ''Unauthorized'', world0)
   \<and> getCurrentAppraisal env0 None world0 = (Failure ''Unauthorized'', world0)
   \<and> createTask env0 None createTask0 world0 = (Failure ''Unauthorized'', world0)
   \<and> deleteUserAccount None world0 = (Failure ''Unauthorized'', world0)
   \<and> getMyCalendarEvents env0 None None None world0 = Failure ''Unauthorized''
   \<and> deleteGoal (Some []) ''g1'' world0 = (Failure ''Unauthorized'', world0)
   \<and> logTaskHours env0 (Some []) ''t1'' 2 world0 = (Failure ''Unauthorized'', world0)
   \<and> updateNotificationSettings (Some []) notifications0 world0
       = (Failure ''Unauthorized'', world0)"
proof -
  have n: "caller None = None" and em: "caller (Some []) = None"
    by (simp_all add: caller_def)
  note absent = no_caller_is_unauthorized
      [OF n, where e = env_tuesday and w = world0 and addData = addEntry0]
    and absent0 = no_caller_is_unauthorized
      [OF n, where e = env0 and w = world0 and newGoal = createGoal0 and newTask = createTask0
         and startDate = None and endDate = None and prefs = preferences0]
    and empty = no_caller_is_unauthorized
      [OF em, where e = env0 and w = world0 and goalId = "''g1''" and taskId = "''t1''"
         and hours = 2 and notif = notifications0]
  show ?thesis
    using n em absent absent0 empty by simp
qed

text \<open>
  The route \<open>GET /api/user/preferences\<close> is not a server action and does not use the
  envelope: without a caller it answers \<open>{ error: "Unauthorized" }\<close> with status 401. It
  only reads.
\<close>

lemma GET_without_caller:
  "caller s = None \<Longrightarrow> GET s w = ErrorJson ''Unauthorized'' 401"
  by (simp add: GET_def)


section \<open>The calendar\<close>

lemma ptoEvents_None: "ptoEvents e start end' p None z = []"
  by (simp add: ptoEvents.simps)

lemma ptoEvents_step:
  "ptoEvents e start end' p (Some c) z =
     (if c \<le> z
      then (if start \<le> c \<and> c \<le> end' then [ptoEvent e p c] else [])
           @ ptoEvents e start end' p (TimeClip (c + msPerDay)) z
      else [])"
  using ptoEvents.simps [of e start end' p "Some c" z] setDate_getDate [of "localTZA e" c 1]
  by (simp add: conj_commute)

lemma ptoEvents_after: "z < c \<Longrightarrow> ptoEvents e start end' p (TimeClip c) z = []"
  by (simp add: TimeClip_def ptoEvents_None ptoEvents_step)

text \<open>
  A request that ends on the second local day after the day it starts, at a time of day
  not before that of its start, gives one event on each of the three days.
\<close>

lemma ptoEvents_three_days:
  assumes "validTime c" and "validTime z" and "start \<le> c" and "z \<le> end'"
    and "Day (LocalTime tza z) = Day (LocalTime tza c) + 2"
    and "TimeWithinDay (LocalTime tza c) \<le> TimeWithinDay (LocalTime tza z)"
  shows "ptoEvents e start end' p (Some c) z
         = [ptoEvent e p c, ptoEvent e p (c + msPerDay), ptoEvent e p (c + 2 * msPerDay)]"
proof -
  define q where "q = Day (c + tza)"
  define r where "r = TimeWithinDay (c + tza)"
  define r' where "r' = TimeWithinDay (z + tza)"
  have c: "c + tza = q * 86400000 + r"
    using MakeDate_Day_TimeWithinDay [of "c + tza"]
    by (simp add: MakeDate_def msPerDay_def q_def r_def)
  have z: "z + tza = (q + 2) * 86400000 + r'"
    using MakeDate_Day_TimeWithinDay [of "z + tza"] assms(5)
    by (simp add: MakeDate_def msPerDay_def q_def r'_def LocalTime_def)
  have b: "0 \<le> r" "r \<le> r'" "r' < 86400000"
    using TimeWithinDay_bounds [of "c + tza"] TimeWithinDay_bounds [of "z + tza"] assms(6)
    by (simp_all add: msPerDay_def r_def r'_def LocalTime_def)
  have "c + tza \<le> z + tza" "c + tza + msPerDay \<le> z + tza"
    "c + tza + 2 * msPerDay \<le> z + tza" "\<not> c + tza + 3 * msPerDay \<le> z + tza"
    unfolding c z msPerDay_def using b by (simp_all add: algebra_simps)
  then have le: "c \<le> z" "c + msPerDay \<le> z" "c + 2 * msPerDay \<le> z" "z < c + 3 * msPerDay"
    by simp_all
  have m: "0 \<le> msPerDay" by (simp add: msPerDay_def)
  have v1: "TimeClip (c + msPerDay) = Some (c + msPerDay)"
    and v2: "TimeClip (c + 2 * msPerDay) = Some (c + 2 * msPerDay)"
    using assms(1,2) le m by (simp_all add: TimeClip_def validTime_def)
  have in0: "start \<le> c \<and> c \<le> end'"
    using assms(3,4) le by simp
  have in1: "start \<le> c + msPerDay \<and> c + msPerDay \<le> end'"
    using assms(3,4) le m by simp
  have in2: "start \<le> c + 2 * msPerDay \<and> c + 2 * msPerDay \<le> end'"
    using assms(3,4) le m by simp
  have s3: "ptoEvents e start end' p (TimeClip (c + 3 * msPerDay)) z = []"
    using le(4) by (rule ptoEvents_after)
  have s2: "ptoEvents e start end' p (Some (c + 2 * msPerDay)) z
            = [ptoEvent e p (c + 2 * msPerDay)]"
    using le(3) in2 s3 by (subst ptoEvents_step) (simp add: algebra_simps)
  have s1: "ptoEvents e start end' p (Some (c + msPerDay)) z
            = [ptoEvent e p (c + msPerDay), ptoEvent e p (c + 2 * msPerDay)]"
    using le(2) in1 s2 v2 by (subst ptoEvents_step) (simp add: algebra_simps)
  show ?thesis
    using le(1) in0 s1 v1 by (subst ptoEvents_step) simp
qed

lemma filter_singletonD: "filter P xs = [x] \<Longrightarrow> P x"
  by (metis filter_eq_Cons_iff)

text \<open>
  The scenario with a request of that kind. The caller has, in the window of the query,
  exactly one task that is due, exactly one review whose cycle ends, and exactly one
  approved request that the query selects; the request lies inside the window, ends on
  the second day after the day it starts, at a time of day not before that of its start
  (as a request from midnight to midnight, or from 00:00 to 23:59:59.999, does). Then
  \<open>getMyCalendarEvents\<close> succeeds with five events: one of type task, at the due date; one
  of type appraisal; three of type pto, one on each of the three days; and the events are
  in ascending order of date.
\<close>

lemma getMyCalendarEvents_three_days:
  assumes "caller s = Some uid"
    and "filter (\<lambda>t. t_assigneeId t = Some uid \<and> dueWithin start end' t) (tasks w) = [t]"
    and "filter (\<lambda>a. ar_userId a = uid \<and> cycleEndsWithin w start end' a) (appraisalReviews w) = [a]"
    and "filter (\<lambda>p. pto_userId p = uid \<and> pto_status p = ''APPROVED'' \<and> ptoWithin start end' p)
           (ptoRequests w) = [p]"
    and "validTime (pto_startDate p)" and "validTime (pto_endDate p)"
    and "start \<le> pto_startDate p" and "pto_endDate p \<le> end'"
    and "Day (LocalTime (localTZA e) (pto_endDate p))
           = Day (LocalTime (localTZA e) (pto_startDate p)) + 2"
    and "TimeWithinDay (LocalTime (localTZA e) (pto_startDate p))
           \<le> TimeWithinDay (LocalTime (localTZA e) (pto_endDate p))"
  shows "\<exists>evs. getMyCalendarEvents e s (Some (Some start)) (Some (Some end')) w
                 = Success (Some evs) None
           \<and> length evs = 5
           \<and> length (filter (\<lambda>ev. ev_type ev = Task) evs) = 1
           \<and> length (filter (\<lambda>ev. ev_type ev = Appraisal) evs) = 1
           \<and> length (filter (\<lambda>ev. ev_type ev = Pto) evs) = 3
           \<and> map ev_date (filter (\<lambda>ev. ev_type ev = Task) evs) = [the (t_dueDate t)]
           \<and> map ev_date (filter (\<lambda>ev. ev_type ev = Pto) evs)
               = [pto_startDate p, pto_startDate p + msPerDay, pto_startDate p + 2 * msPerDay]
           \<and> sorted (map ev_date evs)"
proof -
  have "t_assigneeId t = Some uid \<and> dueWithin start end' t"
    using filter_singletonD [OF assms(2)] .
  then obtain due where due: "t_dueDate t = Some due"
    by (auto simp: dueWithin_def split: option.splits)
  have "ar_userId a = uid \<and> cycleEndsWithin w start end' a"
    using filter_singletonD [OF assms(3)] .
  then obtain c where cyc: "cycleOf w a = Some c"
    by (auto simp: cycleEndsWithin_def split: option.splits)
  define d0 where "d0 = pto_startDate p"
  define events where "events = [taskEvent t due, appraisalEvent a c, ptoEvent e p d0,
      ptoEvent e p (d0 + msPerDay), ptoEvent e p (d0 + 2 * msPerDay)]"
  define evs where "evs = sort_key ev_date events"
  have pe: "ptoEvents e start end' p (Some (pto_startDate p)) (pto_endDate p)
            = [ptoEvent e p d0, ptoEvent e p (d0 + msPerDay), ptoEvent e p (d0 + 2 * msPerDay)]"
    unfolding d0_def by (rule ptoEvents_three_days [where tza = "localTZA e"]) (rule assms)+
  have run: "getMyCalendarEvents e s (Some (Some start)) (Some (Some end')) w
               = Success (Some evs) None"
    using assms(1-4) due cyc pe
    by (simp add: getMyCalendarEvents_def calendarEvents_def Let_def evs_def events_def)
  have types: "filter (\<lambda>ev. ev_type ev = Task) events = [taskEvent t due]"
    "filter (\<lambda>ev. ev_type ev = Appraisal) events = [appraisalEvent a c]"
    "filter (\<lambda>ev. ev_type ev = Pto) events
       = [ptoEvent e p d0, ptoEvent e p (d0 + msPerDay), ptoEvent e p (d0 + 2 * msPerDay)]"
    by (simp_all add: events_def taskEvent_def appraisalEvent_def ptoEvent_def)
  have len: "length evs = 5"
    by (simp add: evs_def events_def)
  have f1: "filter (\<lambda>ev. ev_type ev = Task) evs = [taskEvent t due]"
    unfolding evs_def filter_sort types by simp
  have f2: "filter (\<lambda>ev. ev_type ev = Appraisal) evs = [appraisalEvent a c]"
    unfolding evs_def filter_sort types by simp
  have f3: "filter (\<lambda>ev. ev_type ev = Pto) evs
       = [ptoEvent e p d0, ptoEvent e p (d0 + msPerDay), ptoEvent e p (d0 + 2 * msPerDay)]"
    unfolding evs_def filter_sort types
    by (rule sort_key_id_if_sorted) (simp add: ptoEvent_def msPerDay_def)
  have srt: "sorted (map ev_date evs)"
    unfolding evs_def by (rule sorted_sort_key)
  show ?thesis
    apply (rule exI [of _ evs])
    using run len f1 f2 f3 srt due
    by (simp add: taskEvent_def ptoEvent_def d0_def)
qed

text \<open>
  Alice's calendar from Monday 2024-01-01: her task is due on Wednesday at 09:00, her
  days off run from Thursday 00:00 to Saturday 00:00, and her cycle ends on Saturday at
  00:00. The result has five events, three of them of type pto.
\<close>

lemma getMyCalendarEvents_date_only_request:
  "map ev_type (eventsOf (getMyCalendarEvents env0 (Some ''alice'') (Some (Some window_start))
                            (Some (Some window_end)) world0))
     = [Task, Pto, Pto, Appraisal, Pto]
   \<and> map (\<lambda>ev. Day (ev_date ev))
        (eventsOf (getMyCalendarEvents env0 (Some ''alice'') (Some (Some window_start))
                     (Some (Some window_end)) world0))
     = [19725, 19726, 19727, 19728, 19728]"
  by code_simp

text \<open>
  C8, at an input where the code departs from it. Alice's only approved request runs from
  Thursday 2024-01-04 at 09:00 to Saturday 2024-01-06 at 08:00: a span over three days,
  inside the window from Monday 2024-01-01 to ten days later, which also holds her one
  task due and the end of the one cycle she has a review in. \<open>getMyCalendarEvents\<close>
  succeeds with four events in ascending order, one of type task, one of type appraisal,
  and two of type pto, for Thursday and Friday: the loop steps from the start by whole
  days and compares each step, at 09:00, with the end, so Saturday 09:00 is past the end
  and Saturday gets no event.
\<close>

theorem getMyCalendarEvents_drops_the_last_day:
  "caller (Some ''alice'') = Some ''alice''
   \<and> filter (\<lambda>t. t_assigneeId t = Some ''alice'' \<and> dueWithin window_start window_end t)
        (tasks world_late_start) = [task0]
   \<and> filter (\<lambda>a. ar_userId a = ''alice''
                  \<and> cycleEndsWithin world_late_start window_start window_end a)
        (appraisalReviews world_late_start) = [review0]
   \<and> filter (\<lambda>p. pto_userId p = ''alice'' \<and> pto_status p = ''APPROVED''
                  \<and> ptoWithin window_start window_end p)
        (ptoRequests world_late_start) = [pto_late_start]
   \<and> window_start \<le> pto_startDate pto_late_start \<and> pto_endDate pto_late_start \<le> window_end
   \<and> Day (LocalTime (localTZA env0) (pto_startDate pto_late_start)) = 19726
   \<and> Day (LocalTime (localTZA env0) (pto_endDate pto_late_start)) = 19728
   \<and> map ev_type
        (eventsOf (getMyCalendarEvents env0 (Some ''alice'') (Some (Some window_start))
                     (Some (Some window_end)) world_late_start))
     = [Task, Pto, Pto, Appraisal]
   \<and> length (filter (\<lambda>ev. ev_type ev = Pto)
        (eventsOf (getMyCalendarEvents env0 (Some ''alice'') (Some (Some window_start))
                     (Some (Some window_end)) world_late_start))) = 2
   \<and> map (\<lambda>ev. Day (LocalTime (localTZA env0) (ev_date ev)))
        (filter (\<lambda>ev. ev_type ev = Pto)
           (eventsOf (getMyCalendarEvents env0 (Some ''alice'') (Some (Some window_start))
                        (Some (Some window_end)) world_late_start)))
     = [19726, 19727]"
proof -
  let ?r = "getMyCalendarEvents env0 (Some ''alice'') (Some (Some window_start))
              (Some (Some window_end)) world_late_start"
  have c: "caller (Some ''alice'') = Some ''alice''" by (simp add: caller_def)
  have t: "filter (\<lambda>t. t_assigneeId t = Some ''alice'' \<and> dueWithin window_start window_end t)
             (tasks world_late_start) = [task0]"
    by code_simp
  have a: "filter (\<lambda>a. ar_userId a = ''alice''
                       \<and> cycleEndsWithin world_late_start window_start window_end a)
             (appraisalReviews world_late_start) = [review0]"
    by code_simp
  have p: "filter (\<lambda>p. pto_userId p = ''alice'' \<and> pto_status p = ''APPROVED''
                       \<and> ptoWithin window_start window_end p)
             (ptoRequests world_late_start) = [pto_late_start]"
    by code_simp
  have b1: "window_start \<le> pto_startDate pto_late_start" by code_simp
  have b2: "pto_endDate pto_late_start \<le> window_end" by code_simp
  have d1: "Day (LocalTime (localTZA env0) (pto_startDate pto_late_start)) = 19726" by code_simp
  have d2: "Day (LocalTime (localTZA env0) (pto_endDate pto_late_start)) = 19728" by code_simp
  have ty: "map ev_type (eventsOf ?r) = [Task, Pto, Pto, Appraisal]" by code_simp
  have n: "length (filter (\<lambda>ev. ev_type ev = Pto) (eventsOf ?r)) = 2" by code_simp
  have dy: "map (\<lambda>ev. Day (LocalTime (localTZA env0) (ev_date ev)))
              (filter (\<lambda>ev. ev_type ev = Pto) (eventsOf ?r)) = [19726, 19727]"
    by code_simp
  show ?thesis
    using c t a p b1 b2 d1 d2 ty n dy by (intro conjI)
qed

section \<open>Settings\<close>

text \<open>
  C9. For an authenticated caller, \<open>deleteUserAccount\<close> returns
  \<open>{ success: true, message: "Account deleted successfully" }\<close> and the store it was given:
  no record is changed, and no view path is marked stale.
\<close>

theorem deleteUserAccount_reports_success_and_deletes_nothing:
  assumes "caller s = Some uid"
  shows "deleteUserAccount s w = (Success None (Some ''Account deleted successfully''), w)"
  using assms by (simp add: deleteUserAccount_def)

text \<open>Alice deletes her account: the answer is a success, and the store is as before.\<close>

theorem deleteUserAccount_reports_success_and_deletes_nothing_witness:
  "caller (Some ''alice'') = Some ''alice''
   \<and> deleteUserAccount (Some ''alice'') world0
       = (Success None (Some ''Account deleted successfully''), world0)
   \<and> user_alice \<in> set (users (snd (deleteUserAccount (Some ''alice'') world0)))"
proof -
  have c: "caller (Some ''alice'') = Some ''alice''"
    by (simp add: caller_def)
  have u: "user_alice \<in> set (users world0)"
    by (simp add: world0_def)
  show ?thesis
    using c u deleteUserAccount_reports_success_and_deletes_nothing [OF c, of world0] by simp
qed

text \<open>
  C10. For an authenticated caller, \<open>updateUserPreferences\<close> succeeds and stores, for the
  caller, a preferences object made from the payload alone: each of theme, language and
  time zone is the payload's value, or \<open>light\<close>, \<open>English\<close> and \<open>UTC\<close> when the payload
  leaves it out or gives an empty string. The preferences stored before play no part, and
  the other users are unchanged.
\<close>

theorem updateUserPreferences_replaces_stored_preferences:
  assumes "caller s = Some uid"
    and "prefs = \<lparr>theme = (case pp_theme payload of
                               None \<Rightarrow> ''light'' | Some v \<Rightarrow> if v = [] then ''light'' else v),
                    language = (case pp_language payload of
                               None \<Rightarrow> ''English'' | Some v \<Rightarrow> if v = [] then ''English'' else v),
                    timezone = (case pp_timezone payload of
                               None \<Rightarrow> ''UTC'' | Some v \<Rightarrow> if v = [] then ''UTC'' else v)\<rparr>"
  shows "fst (updateUserPreferences s payload w)
           = Success (Some prefs) (Some ''Preferences updated successfully'')
         \<and> users (snd (updateUserPreferences s payload w))
           = map (\<lambda>u. if u_id u = uid then u\<lparr>u_preferences := Some prefs\<rparr> else u) (users w)
         \<and> (\<forall>u\<in>set (users (snd (updateUserPreferences s payload w))).
               u_id u = uid \<longrightarrow> u_preferences u = Some prefs)"
proof -
  define upd :: "user \<Rightarrow> user" where "upd = (\<lambda>u. u\<lparr>u_preferences := Some prefs\<rparr>)"
  define w' where "w' = revalidatePath ''/profile'' (revalidatePath ''/settings''
                          (w\<lparr>users := updateRows u_id uid upd (users w)\<rparr>))"
  have data: "\<lparr>theme = orDefault (pp_theme payload) ''light'',
               language = orDefault (pp_language payload) ''English'',
               timezone = orDefault (pp_timezone payload) ''UTC''\<rparr> = prefs"
    unfolding assms(2) orDefault_def by (rule refl)
  have run: "updateUserPreferences s payload w
             = (Success (Some prefs) (Some ''Preferences updated successfully''), w')"
    unfolding updateUserPreferences_def Let_def data w'_def upd_def
    using assms(1) by simp
  have us: "users w' = map (\<lambda>u. if u_id u = uid then upd u else u) (users w)"
    by (simp add: w'_def revalidatePath_def updateRows_def)
  have stored: "\<forall>u\<in>set (users w'). u_id u = uid \<longrightarrow> u_preferences u = Some prefs"
  proof
    fix u assume "u \<in> set (users w')"
    then have "u \<in> (\<lambda>u. if u_id u = uid then upd u else u) ` set (users w)"
      unfolding us set_map .
    then obtain u0 where "u = (if u_id u0 = uid then upd u0 else u0)"
      by (rule imageE)
    then show "u_id u = uid \<longrightarrow> u_preferences u = Some prefs"
      by (cases "u_id u0 = uid") (simp_all add: upd_def)
  qed
  show ?thesis
    unfolding run fst_conv snd_conv
    using us stored unfolding upd_def by (intro conjI) (rule refl, assumption+)
qed

text \<open>
  Alice has stored \<open>dark\<close>, \<open>Deutsch\<close> and \<open>Europe/Berlin\<close>. She sends the theme \<open>auto\<close>, no
  language and an empty time zone: stored are \<open>auto\<close>, \<open>English\<close> and \<open>UTC\<close>; Bob's
  preferences are as before.
\<close>

theorem updateUserPreferences_replaces_stored_preferences_witness:
  "caller (Some ''alice'') = Some ''alice''
   \<and> map u_preferences (users world0)
       = [Some \<lparr>theme = ''dark'', language = ''Deutsch'', timezone = ''Europe/Berlin''\<rparr>, None]
   \<and> fst (updateUserPreferences (Some ''alice'') preferences0 world0)
       = Success (Some \<lparr>theme = ''auto'', language = ''English'', timezone = ''UTC''\<rparr>)
           (Some ''Preferences updated successfully'')
   \<and> map u_preferences (users (snd (updateUserPreferences (Some ''alice'') preferences0 world0)))
       = [Some \<lparr>theme = ''auto'', language = ''English'', timezone = ''UTC''\<rparr>, None]"
proof -
  have c: "caller (Some ''alice'') = Some ''alice''"
    by (simp add: caller_def)
  have before: "map u_preferences (users world0)
       = [Some \<lparr>theme = ''dark'', language = ''Deutsch'', timezone = ''Europe/Berlin''\<rparr>, None]"
    by (simp add: world0_def user_alice_def user_bob_def)
  have p: "\<lparr>theme = ''auto'', language = ''English'', timezone = ''UTC''\<rparr>
           = \<lparr>theme = (case pp_theme preferences0 of
                               None \<Rightarrow> ''light'' | Some v \<Rightarrow> if v = [] then ''light'' else v),
              language = (case pp_language preferences0 of
                               None \<Rightarrow> ''English'' | Some v \<Rightarrow> if v = [] then ''English'' else v),
              timezone = (case pp_timezone preferences0 of
                               None \<Rightarrow> ''UTC'' | Some v \<Rightarrow> if v = [] then ''UTC'' else v)\<rparr>"
    by (simp add: preferences0_def)
  note inst = updateUserPreferences_replaces_stored_preferences [OF c p, of world0]
  have r: "fst (updateUserPreferences (Some ''alice'') preferences0 world0)
       = Success (Some \<lparr>theme = ''auto'', language = ''English'', timezone = ''UTC''\<rparr>)
           (Some ''Preferences updated successfully'')"
    using inst by (rule conjunct1)
  have "users (snd (updateUserPreferences (Some ''alice'') preferences0 world0))
      = map (\<lambda>u. if u_id u = ''alice''
                  then u\<lparr>u_preferences :=
                           Some \<lparr>theme = ''auto'', language = ''English'', timezone = ''UTC''\<rparr>\<rparr>
                  else u) (users world0)"
    using inst by (rule conjunct2 [THEN conjunct1])
  then have after:
    "map u_preferences (users (snd (updateUserPreferences (Some ''alice'') preferences0 world0)))
       = [Some \<lparr>theme = ''auto'', language = ''English'', timezone = ''UTC''\<rparr>, None]"
    by (simp add: world0_def user_alice_def user_bob_def)
  show ?thesis
    using c before r after by (intro conjI)
qed

section \<open>Numeric ranges of the payloads\<close>

text \<open>
  The handlers that check: \<open>addTimesheetEntry\<close> refuses hours outside (0, 24] and writes
  nothing, and \<open>updateGoalProgress\<close> stores a progress within 0..100 (see C5).
\<close>

lemma addTimesheetEntry_rejects_hours_out_of_range:
  assumes "caller s = Some uid" and "ae_date ad \<noteq> []" and "ae_projectId ad \<noteq> []"
    and "ae_hours ad \<le> 0 \<or> 24 < ae_hours ad"
  shows "addTimesheetEntry e s ad w = (Failure ''Hours must be between 0 and 24'', w)"
  using assms by (auto simp: addTimesheetEntry_def)

text \<open>
  C4, at the inputs where the code departs from it. \<open>updateTimesheetEntry\<close> passes its
  payload to the store without a check: Alice sets her entry of 8 hours to 25, the call
  succeeds, the entry holds 25 hours and the total of the timesheet is 25. \<open>updateGoal\<close>
  does the same with \<open>progress\<close>: Alice sets the progress of her goal to 150, and 150 is
  stored.
\<close>

theorem update_handlers_store_out_of_range_values:
  "fst (updateTimesheetEntry (Some ''alice'') ''e1'' updateEntry_25 world0)
     = Success (Some (entry_draft\<lparr>te_hours := 25\<rparr>)) None
   \<and> map te_hours
        (timesheetEntries (snd (updateTimesheetEntry (Some ''alice'') ''e1'' updateEntry_25 world0)))
      = [25, 4]
   \<and> map ts_totalHours
        (timesheets (snd (updateTimesheetEntry (Some ''alice'') ''e1'' updateEntry_25 world0)))
      = [25, 4]
   \<and> fst (updateGoal env0 (Some ''alice'') ''g1'' updateGoal0 world0)
     = Success (Some (goal0\<lparr>g_progress := 150\<rparr>)) None
   \<and> map g_progress (goals (snd (updateGoal env0 (Some ''alice'') ''g1'' updateGoal0 world0)))
      = [150]"
proof -
  have e1: "fst (updateTimesheetEntry (Some ''alice'') ''e1'' updateEntry_25 world0)
     = Success (Some (entry_draft\<lparr>te_hours := 25\<rparr>)) None"
    by code_simp
  have e2: "map te_hours
        (timesheetEntries (snd (updateTimesheetEntry (Some ''alice'') ''e1'' updateEntry_25 world0)))
      = [25, 4]"
    by code_simp
  have e3: "map ts_totalHours
        (timesheets (snd (updateTimesheetEntry (Some ''alice'') ''e1'' updateEntry_25 world0)))
      = [25, 4]"
    by code_simp
  have g1: "fst (updateGoal env0 (Some ''alice'') ''g1'' updateGoal0 world0)
     = Success (Some (goal0\<lparr>g_progress := 150\<rparr>)) None"
    by code_simp
  have g2: "map g_progress (goals (snd (updateGoal env0 (Some ''alice'') ''g1'' updateGoal0 world0)))
      = [150]"
    by code_simp
  show ?thesis
    using e1 e2 e3 g1 g2 by simp
qed

end
